theory Spec2Isabelle
  imports Complex_Main
begin

section \<open>Numbers, vectors and scene objects\<close>

text \<open>
  The engine of \<^verbatim>\<open>src/js/experience.js\<close> computes with JavaScript numbers. They are
  modelled as reals; the rounding of double-precision arithmetic is not modelled, the
  rounding of a store into a single-precision array is (\<open>fround\<close> below). A division
  whose divisor can be zero yields a non-finite double (\<^verbatim>\<open>NaN\<close> or an infinity) in
  JavaScript: such a value is \<open>None\<close> here, and it stays \<open>None\<close> through every later
  addition, subtraction and multiplication, as a non-finite double stays non-finite.
\<close>

type_synonym jsnum = "real option"

definition jsdiv :: "real \<Rightarrow> real \<Rightarrow> jsnum" where
  "jsdiv a b = (if b = 0 then None else Some (a / b))"

definition lift2 :: "(real \<Rightarrow> real \<Rightarrow> real) \<Rightarrow> jsnum \<Rightarrow> jsnum \<Rightarrow> jsnum" where
  "lift2 f a b =
     (case a of None \<Rightarrow> None
      | Some u \<Rightarrow> (case b of None \<Rightarrow> None | Some v \<Rightarrow> Some (f u v)))"

type_synonym vec3 = "real \<times> real \<times> real"
type_synonym vec3j = "jsnum \<times> jsnum \<times> jsnum"
type_synonym addr = nat

datatype material =
    MeshStandardMaterial
  | PointsMaterial
  | TorusShaderMaterial
  | WaveShaderMaterial
  | ParticleShaderMaterial

datatype geometry_kind =
    TorusKnotGeometry real real nat nat
  | IcosahedronGeometry real nat
  | PlaneGeometry real real nat nat
  | BoxGeometry real real real
  | SphereGeometry real nat nat
  | BufferGeometry

text \<open>
  A mesh or point cloud of the scene. \<open>positionAttr\<close> is the flat single-precision
  array behind \<^verbatim>\<open>geometry.attributes.position\<close> (three numbers per vertex, \<open>None\<close> for
  one that is not finite); \<open>disposed\<close> records that
  \<^verbatim>\<open>dispose()\<close> was called on its geometry and material. The colour, metalness and
  roughness of a material, the shadow flags and \<^verbatim>\<open>userData\<close> are set once at
  construction and never read by the engine; they are left out.
\<close>

record object3d =
  position :: vec3
  rotation :: vec3
  scale :: vec3
  material :: material
  geometry :: geometry_kind
  positionAttr :: "jsnum list"
  disposed :: bool

record renderer_state =
  pixelRatio :: real
  size :: "real \<times> real"
  rendererDisposed :: bool
  domAttached :: bool

record camera_state =
  cam_position :: vec3j
  aspect :: jsnum

datatype pass = RenderPass | UnrealBloomPass real real real | ShaderPass

record composer_state =
  passes :: "pass list"
  composerSize :: "(real \<times> real) option"
  targetsDisposed :: bool

text \<open>The value held by a shader uniform: a number or a two-component vector.\<close>

datatype uniform_value = UFloat real | UVec2 jsnum jsnum | UNull

datatype uniform_name = uTime | uScrollProgress | uAmplitude | uMouse | uSize | uOffset | tDiffuse

type_synonym uniforms = "uniform_name \<Rightarrow> uniform_value option"

record particle_buffers =
  positions :: "jsnum list"
  scales :: "jsnum list"
  randomness :: "jsnum list"
  phases :: "jsnum list"
  colors :: "jsnum list"

datatype listener = ResizeArrow | MouseMoveArrow | ScrollArrow | BoundOnResize nat

datatype trigger =
    CameraTrigger
  | FeatureTrigger nat
  | ShowcaseTrigger
  | StatsTimeline
  | ContactTrigger
  | ParallaxTrigger nat

text \<open>
  An animation of the animation library, named by what it writes: the scale or the
  position of a scene object, or one entry of \<^verbatim>\<open>barHeights\<close>.
\<close>

datatype tween = ScaleTween addr | PositionTween addr | BarTween nat

datatype error = SyntaxError | TypeError

text \<open>
  The four modules that \<^verbatim>\<open>_initPostProcessing\<close> imports: \<open>True\<close> when the import
  delivered the class, \<open>False\<close> when it failed and the \<^verbatim>\<open>catch\<close> handler put
  \<^verbatim>\<open>null\<close> in its place.
\<close>

record modules =
  EffectComposer_loaded :: bool
  RenderPass_loaded :: bool
  UnrealBloomPass_loaded :: bool
  ShaderPass_loaded :: bool

text \<open>
  \<^verbatim>\<open>Math.random()\<close> returns a number that is at least 0 and less than 1; the type of
  its results carries that contract.
\<close>

typedef unit_interval = "{u::real. 0 \<le> u \<and> u < 1}"
  by (rule exI [of _ 0]) simp

text \<open>
  What the engine reads from its surroundings when it is constructed: the window's
  size and pixel ratio, the successive results of \<^verbatim>\<open>Math.random()\<close> (call number
  \<open>k\<close> returns \<open>random k\<close>), and the vertex arrays that the geometry constructors of
  the rendering library build.
\<close>

record env =
  innerWidth :: real
  innerHeight :: real
  devicePixelRatio :: real
  random :: "nat \<Rightarrow> unit_interval"
  vertices_of :: "geometry_kind \<Rightarrow> jsnum list"

section \<open>The engine state\<close>

text \<open>
  One record holds the properties of the \<^verbatim>\<open>Experience\<close> instance (\<^verbatim>\<open>this\<close>) and the
  part of the browser the engine acts on. Scene objects live in \<open>heap\<close>, a list indexed
  by address, and the instance refers to them by address, so that two properties naming
  one object are two equal addresses. A property that the source reads but never
  assigns is \<^verbatim>\<open>undefined\<close> in JavaScript and \<open>None\<close> here. A property written
  \<^verbatim>\<open>_name\<close> in the source is \<open>name\<close> here.

  Properties of \<^verbatim>\<open>this\<close>: \<open>canvas\<close> to \<open>this_height\<close>. The browser: \<open>heap\<close> (the objects
  added to the scene), \<open>particleAttributes\<close> (the attribute arrays of the particle
  geometry), \<open>windowListeners\<close> (listeners registered on \<^verbatim>\<open>window\<close>, by event type),
  \<open>scrollTriggers\<close> and \<open>tweens\<close> (the live triggers and animations of the
  animation library), \<open>rafQueue\<close> and
  \<open>rafNext\<close> (pending animation-frame requests and the next request id),
  \<open>timeoutPending\<close> (the 100 ms timer of the constructor), \<open>importsPending\<close> (the
  dynamic imports of \<^verbatim>\<open>_initPostProcessing\<close> have not settled), \<open>console\<close> (warnings
  logged), \<open>frames\<close> (frames submitted for rendering) and \<open>bindCount\<close> (function
  objects created by \<^verbatim>\<open>bind\<close>).
\<close>

record experience =
  canvas :: nat
  dimensions :: "real \<times> real"
  mouse :: "jsnum \<times> jsnum"
  time :: real
  scrollProgress :: real
  currentSection :: "int option"
  scrollY :: real
  barHeights :: "real list"
  waveAmplitude :: real
  contactSphereScale :: real
  meshes_hero :: "addr option"
  meshes_features :: "addr list"
  meshes_showcase :: "addr option"
  meshes_bars :: "addr list"
  meshes_contactPoints :: "addr option"
  meshes_contactSphere :: "addr option"
  renderer :: "renderer_state option"
  camera :: "camera_state option"
  mouseLight :: "vec3j option"
  heroGroup :: real
  featuresGroup :: real
  showcaseGroup :: real
  statsGroup :: real
  contactGroup :: real
  particleSystem :: "addr option"
  particleUniforms :: "uniforms option"
  composer :: "composer_state option"
  chromaticAberrationPass :: "uniforms option"
  torusKnot :: "addr option"
  showcasePlane :: "addr option"
  torusUniforms :: "uniforms option"
  waveUniforms :: "uniforms option"
  heroMesh :: "addr option"
  featuresMeshes :: "addr list option"
  waveMesh :: "addr option"
  statsBars :: "addr list option"
  contactSphere :: "addr option"
  parallaxGroups :: "addr list option"
  heroShaderMaterial :: "uniforms option"
  waveShaderMaterial :: "uniforms option"
  particleShaderMaterial :: "uniforms option"
  prevScrollY :: "real option"
  scrollVelocity :: "real option"
  animFrameId :: "nat option"
  onMouseMove :: "listener option"
  this_width :: "real option"
  this_height :: "real option"
  heap :: "object3d list"
  particleAttributes :: "particle_buffers option"
  windowListeners :: "(string \<times> listener) list"
  scrollTriggers :: "trigger list"
  tweens :: "tween list"
  rafQueue :: "nat list"
  rafNext :: nat
  timeoutPending :: bool
  importsPending :: bool
  console :: "string list"
  frames :: nat
  bindCount :: nat

section \<open>Construction\<close>

text \<open>
  The property initialisers at the head of the constructor, before the boot sequence.
  Nothing is registered with the browser yet.
\<close>

definition new_instance :: "env \<Rightarrow> nat \<Rightarrow> experience" where
  "new_instance e cv =
     \<lparr> canvas = cv,
       dimensions = (innerWidth e, innerHeight e),
       mouse = (Some 0, Some 0),
       time = 0,
       scrollProgress = 0,
       currentSection = Some 0,
       scrollY = 0,
       barHeights = [0, 0, 0, 0],
       waveAmplitude = 0,
       contactSphereScale = 1,
       meshes_hero = None,
       meshes_features = [],
       meshes_showcase = None,
       meshes_bars = [],
       meshes_contactPoints = None,
       meshes_contactSphere = None,
       renderer = None,
       camera = None,
       mouseLight = None,
       heroGroup = 0,
       featuresGroup = 0,
       showcaseGroup = 0,
       statsGroup = 0,
       contactGroup = 0,
       particleSystem = None,
       particleUniforms = None,
       composer = None,
       chromaticAberrationPass = None,
       torusKnot = None,
       showcasePlane = None,
       torusUniforms = None,
       waveUniforms = None,
       heroMesh = None,
       featuresMeshes = None,
       waveMesh = None,
       statsBars = None,
       contactSphere = None,
       parallaxGroups = None,
       heroShaderMaterial = None,
       waveShaderMaterial = None,
       particleShaderMaterial = None,
       prevScrollY = None,
       scrollVelocity = None,
       animFrameId = None,
       onMouseMove = None,
       this_width = None,
       this_height = None,
       heap = [],
       particleAttributes = None,
       windowListeners = [],
       scrollTriggers = [],
       tweens = [],
       rafQueue = [],
       rafNext = 1,
       timeoutPending = False,
       importsPending = False,
       console = [],
       frames = 0,
       bindCount = 0 \<rparr>"

text \<open>
  \<^verbatim>\<open>_initRenderer\<close>: of the renderer's settings, the pixel ratio and the size are kept,
  being the two that the resize listener writes again. The canvas handed to the
  constructor is an element of the page.
\<close>

definition initRenderer :: "env \<Rightarrow> experience \<Rightarrow> experience" where
  "initRenderer e s =
     s\<lparr>renderer := Some \<lparr> pixelRatio = min (devicePixelRatio e) 2,
                             size = dimensions s,
                             rendererDisposed = False,
                             domAttached = True \<rparr>\<rparr>"

definition initCamera :: "experience \<Rightarrow> experience" where
  "initCamera s =
     s\<lparr>camera := Some \<lparr> cam_position = (Some 0, Some 0, Some 5),
                           aspect = jsdiv (fst (dimensions s)) (snd (dimensions s)) \<rparr>\<rparr>"

text \<open>
  \<^verbatim>\<open>_initLights\<close> also adds an ambient light and two directional lights; no property
  keeps a reference to them and nothing reads them again. The point light starts at
  the origin.
\<close>

definition initLights :: "experience \<Rightarrow> experience" where
  "initLights s = s\<lparr>mouseLight := Some (Some 0, Some 0, Some 0)\<rparr>"

definition new_object :: "env \<Rightarrow> geometry_kind \<Rightarrow> material \<Rightarrow> object3d" where
  "new_object e g m =
     \<lparr> position = (0, 0, 0), rotation = (0, 0, 0), scale = (1, 1, 1), material = m,
       geometry = g, positionAttr = vertices_of e g, disposed = False \<rparr>"

definition alloc :: "object3d \<Rightarrow> experience \<Rightarrow> addr \<times> experience" where
  "alloc ob s = (length (heap s), s\<lparr>heap := heap s @ [ob]\<rparr>)"

definition featureXPositions :: "real list" where
  "featureXPositions = [- 5 / 2, 0, 5 / 2]"

definition barBaseHeights :: "real list" where
  "barBaseHeights = [2, 3, 5 / 2, 7 / 2]"

definition barXPositions :: "real list" where
  "barXPositions = [- 9 / 4, - 3 / 4, 3 / 4, 9 / 4]"

definition add_feature :: "env \<Rightarrow> real \<Rightarrow> experience \<Rightarrow> experience" where
  "add_feature e xPos s =
     (case alloc ((new_object e (IcosahedronGeometry (3 / 5) 1) MeshStandardMaterial)
                    \<lparr>position := (xPos, 0, 0)\<rparr>) s of
        (a, s1) \<Rightarrow> s1\<lparr>meshes_features := meshes_features s1 @ [a]\<rparr>)"

definition add_bar :: "env \<Rightarrow> nat \<Rightarrow> experience \<Rightarrow> experience" where
  "add_bar e i s =
     (case alloc ((new_object e (BoxGeometry (3 / 5) (barBaseHeights ! i) (3 / 5))
                     MeshStandardMaterial)
                    \<lparr>position := (barXPositions ! i, 0, 0)\<rparr>) s of
        (a, s1) \<Rightarrow> s1\<lparr>meshes_bars := meshes_bars s1 @ [a]\<rparr>)"

definition initGeometries :: "env \<Rightarrow> experience \<Rightarrow> experience" where
  "initGeometries e s0 =
     (case alloc (new_object e (TorusKnotGeometry (6 / 5) (2 / 5) 200 32) MeshStandardMaterial)
             (s0\<lparr>heroGroup := 0\<rparr>) of
      (hero, s1) \<Rightarrow>
     (let s2 = s1\<lparr>meshes_hero := Some hero\<rparr>;
          s3 = s2\<lparr>featuresGroup := - 10, meshes_features := []\<rparr>;
          s4 = fold (add_feature e) featureXPositions s3 in
      case alloc ((new_object e (PlaneGeometry 8 6 128 128) MeshStandardMaterial)
                    \<lparr>rotation := (- pi / 3, 0, 0)\<rparr>)
             (s4\<lparr>showcaseGroup := - 20\<rparr>) of
      (showcase, s5) \<Rightarrow>
     (let s6 = s5\<lparr>meshes_showcase := Some showcase\<rparr>;
          s7 = s6\<lparr>statsGroup := - 30, meshes_bars := []\<rparr>;
          s8 = fold (add_bar e) [0 ..< length barXPositions] s7 in
      case alloc (new_object e (SphereGeometry (3 / 2) 64 64) PointsMaterial)
             (s8\<lparr>contactGroup := - 40\<rparr>) of
      (points, s9) \<Rightarrow>
      case alloc (new_object e (SphereGeometry 1 32 32) MeshStandardMaterial)
             (s9\<lparr>meshes_contactPoints := Some points\<rparr>) of
      (inner, s10) \<Rightarrow> s10\<lparr>meshes_contactSphere := Some inner\<rparr>)))"

definition update_obj :: "addr \<Rightarrow> (object3d \<Rightarrow> object3d) \<Rightarrow> experience \<Rightarrow> experience" where
  "update_obj a f s = s\<lparr>heap := (heap s)[a := f (heap s ! a)]\<rparr>"

text \<open>
  \<^verbatim>\<open>_initShaders\<close> returns at once unless both \<^verbatim>\<open>this.torusKnot\<close> and
  \<^verbatim>\<open>this.showcasePlane\<close> are set; otherwise it installs the two shader materials.
\<close>

definition initShaders :: "experience \<Rightarrow> experience" where
  "initShaders s =
     (case torusKnot s of None \<Rightarrow> s
      | Some tk \<Rightarrow>
     (case showcasePlane s of None \<Rightarrow> s
      | Some sp \<Rightarrow>
        (let s1 = s\<lparr>torusUniforms := Some [uTime \<mapsto> UFloat 0, uScrollProgress \<mapsto> UFloat 0]\<rparr>;
             s2 = update_obj tk (\<lambda>ob. ob\<lparr>material := TorusShaderMaterial\<rparr>) s1;
             s3 = s2\<lparr>waveUniforms := Some [uTime \<mapsto> UFloat 0, uAmplitude \<mapsto> UFloat (1 / 2),
                                           uScrollProgress \<mapsto> UFloat 0]\<rparr>
         in update_obj sp (\<lambda>ob. ob\<lparr>material := WaveShaderMaterial\<rparr>) s3)))"

subsection \<open>The particle buffers\<close>

definition particle_count :: nat where
  "particle_count = 80000"

definition arms :: nat where
  "arms = 3"

text \<open>
  The four palette colours, with the red, green and blue components written in the
  source; a conversion of the rendering library to its working colour space is not
  modelled.
\<close>

definition palette :: "vec3 list" where
  "palette = [(1 / 2, 0, 4 / 5), (0, 1 / 2, 1), (1, 0, 3 / 5), (1, 1, 1)]"

text \<open>
  The five arrays are \<^verbatim>\<open>Float32Array\<close>s, and a store into one converts the number to
  single precision: to the nearest number with a significand of 24 bits, a tie going
  to the even significand. The exponent of a single lies between -126 and 127; below
  \<open>2 powi (- 126)\<close> the spacing stays \<open>2 powi (- 149)\<close>, and a rounded magnitude that
  reaches \<open>2 powi 128\<close> is stored as an infinity.

  \<open>ties_even\<close> rounds to the nearest integer, ties to even. \<open>binade n a\<close> searches the
  exponents from \<open>n - 126\<close> downwards for the first power of two not above \<open>a\<close> and
  stops at -126, so \<open>binade 253\<close> covers the whole exponent range. \<open>fround\<close> is the
  conversion; \<open>None\<close> stands for an infinity. The arithmetic of the loop body before
  a store is in double precision in the source and over the reals here.
\<close>

definition ties_even :: "real \<Rightarrow> int" where
  "ties_even x =
     (let n = \<lfloor>x\<rfloor>; f = x - of_int n
      in if f < 1 / 2 then n else if 1 / 2 < f then n + 1 else if even n then n else n + 1)"

fun binade :: "nat \<Rightarrow> real \<Rightarrow> int" where
  "binade 0 a = - 126"
| "binade (Suc n) a = (if 2 powi (int n - 125) \<le> a then int n - 125 else binade n a)"

definition fround :: "real \<Rightarrow> jsnum" where
  "fround v =
     (let e = binade 253 \<bar>v\<bar>;
          q = 2 powi (e - 23);
          w = of_int (ties_even (v / q)) * q
      in if \<bar>w\<bar> < 2 powi 128 then Some w else None)"

text \<open>
  The five typed arrays as allocated: zero-filled, of lengths \<open>3 * count\<close>, \<open>count\<close>,
  \<open>3 * count\<close>, \<open>count\<close> and \<open>3 * count\<close>.
\<close>

definition empty_buffers :: "nat \<Rightarrow> particle_buffers" where
  "empty_buffers n =
     \<lparr> positions = replicate (n * 3) (Some 0), scales = replicate n (Some 0),
       randomness = replicate (n * 3) (Some 0), phases = replicate n (Some 0),
       colors = replicate (n * 3) (Some 0) \<rparr>"

text \<open>
  One pass of the loop body for particle \<open>i\<close>. The body calls \<^verbatim>\<open>Math.random()\<close> ten
  times, so the calls of pass \<open>i\<close> are numbers \<open>10 * i\<close> to \<open>10 * i + 9\<close>, in the order
  of the source: radius, arm, angle, height, scale, three randomness components,
  phase, colour. Every assignment to an array element is a single-precision store.
\<close>

definition write_particle :: "(nat \<Rightarrow> real) \<Rightarrow> nat \<Rightarrow> particle_buffers \<Rightarrow> particle_buffers" where
  "write_particle rnd i b =
     (let i3 = i * 3;
          k = i * 10;
          r = sqrt (rnd k) * 5;
          armIndex = \<lfloor>rnd (k + 1) * real arms\<rfloor>;
          armOffset = (real_of_int armIndex / real arms) * pi * 2;
          theta = rnd (k + 2) * pi * 2 + armOffset + r * (1 / 2);
          y = (rnd (k + 3) - 1 / 2) * 2;
          colorChoice = palette ! nat \<lfloor>rnd (k + 9) * real (length palette)\<rfloor>
      in \<lparr> positions = (positions b)[i3 := fround (cos theta * r), i3 + 1 := fround y,
                                     i3 + 2 := fround (sin theta * r)],
           scales = (scales b)[i := fround (rnd (k + 4) * (3 / 2) + 1 / 2)],
           randomness = (randomness b)[i3 := fround ((rnd (k + 5) - 1 / 2) * 2),
                                       i3 + 1 := fround ((rnd (k + 6) - 1 / 2) * 2),
                                       i3 + 2 := fround ((rnd (k + 7) - 1 / 2) * 2)],
           phases = (phases b)[i := fround (rnd (k + 8) * pi * 2)],
           colors = (colors b)[i3 := fround (fst colorChoice),
                               i3 + 1 := fround (fst (snd colorChoice)),
                               i3 + 2 := fround (snd (snd colorChoice))] \<rparr>)"

definition generate_particles :: "(nat \<Rightarrow> real) \<Rightarrow> nat \<Rightarrow> particle_buffers" where
  "generate_particles rnd n = fold (write_particle rnd) [0 ..< n] (empty_buffers n)"

definition initParticleSystem :: "env \<Rightarrow> experience \<Rightarrow> experience" where
  "initParticleSystem e s =
     (let bufs = generate_particles (\<lambda>k. Rep_unit_interval (random e k)) particle_count;
          s1 = s\<lparr>particleAttributes := Some bufs,
                  particleUniforms := Some [uTime \<mapsto> UFloat 0, uScrollProgress \<mapsto> UFloat 0,
                                            uMouse \<mapsto> UVec2 (Some 0) (Some 0), uSize \<mapsto> UFloat 2]\<rparr>
      in case alloc \<lparr> position = (0, - 20, 0), rotation = (0, 0, 0), scale = (1, 1, 1),
                       material = ParticleShaderMaterial, geometry = BufferGeometry,
                       positionAttr = positions bufs, disposed = False \<rparr> s1 of
           (a, s2) \<Rightarrow> s2\<lparr>particleSystem := Some a\<rparr>)"

subsection \<open>Post-processing\<close>

text \<open>
  The body of \<^verbatim>\<open>_initPostProcessing\<close> after its four awaited imports have settled with
  the results \<open>m\<close>. The source tests \<^verbatim>\<open>!EffectComposer || !RenderPass || !UnrealBloomPass
  || !ShaderPass\<close> and returns after the warning; here the same test is written with its
  branches exchanged.
\<close>

definition initPostProcessing :: "modules \<Rightarrow> experience \<Rightarrow> experience" where
  "initPostProcessing m s =
     (if EffectComposer_loaded m \<and> RenderPass_loaded m \<and> UnrealBloomPass_loaded m
         \<and> ShaderPass_loaded m
      then s\<lparr>composer := Some \<lparr> passes = [RenderPass, UnrealBloomPass (4 / 5) (2 / 5) (1 / 5),
                                                ShaderPass],
                                      composerSize = None, targetsDisposed = False \<rparr>,
             chromaticAberrationPass := Some [tDiffuse \<mapsto> UNull, uOffset \<mapsto> UFloat (3 / 1000)]\<rparr>
      else s\<lparr>console := console s @ [''Post processing modules not available'']\<rparr>)"

subsection \<open>Input listeners\<close>

definition addEventListener :: "string \<Rightarrow> listener \<Rightarrow> experience \<Rightarrow> experience" where
  "addEventListener ty f s =
     (if (ty, f) \<in> set (windowListeners s) then s
      else s\<lparr>windowListeners := windowListeners s @ [(ty, f)]\<rparr>)"

text \<open>
  \<^verbatim>\<open>removeEventListener\<close> removes the registration of exactly the function object it is
  given; given \<^verbatim>\<open>undefined\<close> it does nothing.
\<close>

definition removeEventListener :: "string \<Rightarrow> listener option \<Rightarrow> experience \<Rightarrow> experience" where
  "removeEventListener ty f s =
     (case f of None \<Rightarrow> s
      | Some g \<Rightarrow> s\<lparr>windowListeners := removeAll (ty, g) (windowListeners s)\<rparr>)"

definition initEventListeners :: "experience \<Rightarrow> experience" where
  "initEventListeners s =
     addEventListener ''scroll'' ScrollArrow
       (addEventListener ''mousemove'' MouseMoveArrow
         (addEventListener ''resize'' ResizeArrow s))"

text \<open>
  The resize listener, given the window's new size and pixel ratio. The camera and the
  renderer exist whenever it runs, since it is registered after they are created.
\<close>

definition resize_listener :: "real \<Rightarrow> real \<Rightarrow> real \<Rightarrow> experience \<Rightarrow> experience" where
  "resize_listener w h dpr s =
     (let s1 = s\<lparr>dimensions := (w, h)\<rparr>;
          s2 = s1\<lparr>camera := map_option (\<lambda>c. c\<lparr>aspect := jsdiv w h\<rparr>) (camera s1)\<rparr>;
          s3 = s2\<lparr>renderer := map_option (\<lambda>r. r\<lparr>size := (w, h), pixelRatio := min dpr 2\<rparr>)
                                          (renderer s2)\<rparr>
      in s3\<lparr>composer := map_option (\<lambda>c. c\<lparr>composerSize := Some (w, h)\<rparr>) (composer s3)\<rparr>)"

text \<open>The mousemove listener, given \<^verbatim>\<open>event.clientX\<close> and \<^verbatim>\<open>event.clientY\<close>.\<close>

definition mousemove_listener :: "real \<Rightarrow> real \<Rightarrow> experience \<Rightarrow> experience" where
  "mousemove_listener clientX clientY s =
     s\<lparr>mouse := (map_option (\<lambda>q. q * 2 - 1) (jsdiv clientX (fst (dimensions s))),
                 map_option (\<lambda>q. - q * 2 + 1) (jsdiv clientY (snd (dimensions s))))\<rparr>"

text \<open>
  The scroll listener, given \<^verbatim>\<open>window.scrollY\<close>,
  \<^verbatim>\<open>document.documentElement.scrollHeight\<close> and \<^verbatim>\<open>window.innerHeight\<close>.
\<close>

definition scroll_listener :: "real \<Rightarrow> real \<Rightarrow> real \<Rightarrow> experience \<Rightarrow> experience" where
  "scroll_listener window_scrollY scrollHeight window_innerHeight s =
     (let s1 = s\<lparr>scrollY := window_scrollY\<rparr>;
          maxScroll = scrollHeight - window_innerHeight;
          s2 = s1\<lparr>scrollProgress := (if maxScroll > 0 then scrollY s1 / maxScroll else 0)\<rparr>
      in s2\<lparr>currentSection := map_option floor (jsdiv (scrollY s2) (snd (dimensions s2)))\<rparr>)"

section \<open>Scroll animations\<close>

text \<open>
  The animation library is outside the repository. What the engine registers with it
  is recorded (\<open>scrollTriggers\<close>, \<open>tweens\<close>); the library then calls the registered
  callbacks with a progress value of its choosing and writes animated values to the
  registered tween targets. \<^verbatim>\<open>gsap.utils.interpolate(a, b, t)\<close> is linear interpolation.
\<close>

definition interpolate :: "real \<Rightarrow> real \<Rightarrow> real \<Rightarrow> real" where
  "interpolate a b t = a + (b - a) * t"

definition create_trigger :: "trigger \<Rightarrow> experience \<Rightarrow> experience" where
  "create_trigger t s = s\<lparr>scrollTriggers := scrollTriggers s @ [t]\<rparr>"

definition create_tween :: "tween \<Rightarrow> experience \<Rightarrow> experience" where
  "create_tween t s = s\<lparr>tweens := tweens s @ [t]\<rparr>"

definition flyInOffsets :: "vec3 list" where
  "flyInOffsets = [(- 5, 0, 0), (0, 3, 0), (5, 0, 0)]"

definition vadd :: "vec3 \<Rightarrow> vec3 \<Rightarrow> vec3" where
  "vadd a b = (fst a + fst b, fst (snd a) + fst (snd b), snd (snd a) + snd (snd b))"

text \<open>The \<^verbatim>\<open>onUpdate\<close> callback of the full-document trigger.\<close>

definition camera_onUpdate :: "real \<Rightarrow> experience \<Rightarrow> experience" where
  "camera_onUpdate progress s =
     (let s1 = s\<lparr>scrollProgress := progress\<rparr>;
          prevY = (case prevScrollY s1 of None \<Rightarrow> 0 | Some v \<Rightarrow> v);
          s2 = s1\<lparr>scrollVelocity := Some (progress - prevY)\<rparr>;
          s3 = s2\<lparr>prevScrollY := Some progress\<rparr>
      in s3\<lparr>camera :=
             map_option
               (\<lambda>c. c\<lparr>cam_position :=
                      (fst (cam_position c), Some (progress * - 40), snd (snd (cam_position c)))\<rparr>)
               (camera s3)\<rparr>)"

text \<open>The \<^verbatim>\<open>onUpdate\<close> callback of the showcase trigger.\<close>

definition showcase_onUpdate :: "real \<Rightarrow> experience \<Rightarrow> experience" where
  "showcase_onUpdate p s =
     (if p < 1 / 2 then s\<lparr>waveAmplitude := interpolate 0 (1 / 2) (p * 2)\<rparr>
      else s\<lparr>waveAmplitude := interpolate (1 / 2) 0 ((p - 1 / 2) * 2)\<rparr>)"

text \<open>The \<^verbatim>\<open>onUpdate\<close> callback of the contact trigger.\<close>

definition contact_onUpdate :: "real \<Rightarrow> experience \<Rightarrow> experience" where
  "contact_onUpdate progress s = s\<lparr>contactSphereScale := 1 + progress * (3 / 2)\<rparr>"

definition parallaxRates :: "real list" where
  "parallaxRates = [1, 19 / 20, 9 / 10, 17 / 20, 4 / 5]"

text \<open>The \<^verbatim>\<open>onUpdate\<close> callback of the parallax trigger of group \<open>i\<close>.\<close>

definition parallax_onUpdate :: "nat \<Rightarrow> real \<Rightarrow> experience \<Rightarrow> experience" where
  "parallax_onUpdate i progress s =
     (case parallaxGroups s of None \<Rightarrow> s
      | Some gs \<Rightarrow>
          update_obj (gs ! i)
            (\<lambda>ob. ob\<lparr>position := (fst (position ob), - progress * 40 * (parallaxRates ! i),
                                    snd (snd (position ob)))\<rparr>) s)"

text \<open>The \<^verbatim>\<open>onEnter\<close> callback of the features trigger of mesh \<open>i\<close>.\<close>

definition feature_onEnter :: "nat \<Rightarrow> experience \<Rightarrow> experience" where
  "feature_onEnter i s =
     (case featuresMeshes s of None \<Rightarrow> s
      | Some ms \<Rightarrow> create_tween (PositionTween (ms ! i)) s)"

text \<open>
  The source has three fly-in offsets. With more than three feature meshes it would
  read past them and throw; \<open>flyInOffsets ! i\<close> is then unspecified here. The branch
  needs \<^verbatim>\<open>this.featuresMeshes\<close>, which is never assigned.
\<close>

definition setup_feature :: "addr list \<Rightarrow> nat \<Rightarrow> experience \<Rightarrow> experience" where
  "setup_feature ms i s =
     create_trigger (FeatureTrigger i)
       (update_obj (ms ! i) (\<lambda>ob. ob\<lparr>position := vadd (position ob) (flyInOffsets ! i)\<rparr>) s)"

definition initScrollAnimations :: "experience \<Rightarrow> experience" where
  "initScrollAnimations s0 =
     (let s1 = (case heroMesh s0 of None \<Rightarrow> s0
                | Some a \<Rightarrow> create_tween (ScaleTween a)
                             (update_obj a (\<lambda>ob. ob\<lparr>scale := (0, 0, 0)\<rparr>) s0));
          s2 = create_trigger CameraTrigger s1;
          s3 = (case featuresMeshes s2 of None \<Rightarrow> s2
                | Some ms \<Rightarrow> if 3 \<le> length ms then fold (setup_feature ms) [0 ..< length ms] s2
                             else s2);
          s4 = create_trigger ShowcaseTrigger s3;
          s5 = (case statsBars s4 of None \<Rightarrow> s4
                | Some bs \<Rightarrow> if 0 < length bs
                             then fold (\<lambda>i. create_tween (BarTween i)) [0 ..< length bs]
                                    (create_trigger StatsTimeline s4)
                             else s4);
          s6 = s5\<lparr>contactSphereScale := 1\<rparr>;
          s7 = create_trigger ContactTrigger s6
      in case parallaxGroups s7 of None \<Rightarrow> s7
         | Some gs \<Rightarrow> fold (\<lambda>i. create_trigger (ParallaxTrigger i)) [0 ..< length gs] s7)"

section \<open>The render loop\<close>

definition wave_y :: "real \<Rightarrow> real \<Rightarrow> nat \<Rightarrow> jsnum list \<Rightarrow> jsnum list" where
  "wave_y t amp i arr =
     arr[3 * i + 1 :=
           (case arr ! (3 * i) of None \<Rightarrow> None
            | Some x \<Rightarrow>
                (case arr ! (3 * i + 2) of None \<Rightarrow> None
                 | Some z \<Rightarrow> fround (sin (x * (1 / 2) + t) * cos (z * (1 / 2) + t * (7 / 10)) * amp)))]"

definition updateOnScroll :: "experience \<Rightarrow> experience" where
  "updateOnScroll s0 =
     (let s1 = (case waveMesh s0 of None \<Rightarrow> s0
                | Some a \<Rightarrow>
                    update_obj a
                      (\<lambda>ob. ob\<lparr>positionAttr :=
                               fold (wave_y (time s0) (waveAmplitude s0))
                                 [0 ..< length (positionAttr ob) div 3] (positionAttr ob)\<rparr>) s0);
          s2 = (case contactSphere s1 of None \<Rightarrow> s1
                | Some a \<Rightarrow>
                    (let sc = (if contactSphereScale s1 = 0 then 1 else contactSphereScale s1)
                     in update_obj a (\<lambda>ob. ob\<lparr>scale := (sc, sc, sc)\<rparr>) s1))
      in case statsBars s2 of None \<Rightarrow> s2
         | Some bs \<Rightarrow>
             fold (\<lambda>i. update_obj (bs ! i)
                          (\<lambda>ob. ob\<lparr>scale := (fst (scale ob),
                                               max (1 / 1000)
                                                 (if i < length (barHeights s2) then barHeights s2 ! i
                                                  else 0),
                                               snd (snd (scale ob)))\<rparr>))
               [0 ..< length bs] s2)"

definition set_uniform :: "uniform_name \<Rightarrow> uniform_value \<Rightarrow> uniforms \<Rightarrow> uniforms" where
  "set_uniform n v u = (case u n of None \<Rightarrow> u | Some old \<Rightarrow> u(n \<mapsto> v))"

definition rotate_by :: "real \<Rightarrow> real \<Rightarrow> object3d \<Rightarrow> object3d" where
  "rotate_by dx dy ob =
     ob\<lparr>rotation := (fst (rotation ob) + dx, fst (snd (rotation ob)) + dy, snd (snd (rotation ob)))\<rparr>"

text \<open>
  \<^verbatim>\<open>_updateParticles\<close>. The uniforms it writes are those of
  \<^verbatim>\<open>this.particleShaderMaterial\<close>, a property that is never assigned; the uniforms made
  by \<^verbatim>\<open>_initParticleSystem\<close> are in \<^verbatim>\<open>this.particleUniforms\<close>.
\<close>

definition updateParticles :: "real \<Rightarrow> real \<Rightarrow> experience \<Rightarrow> experience" where
  "updateParticles t delta s0 =
     (let s1 = (case particleSystem s0 of None \<Rightarrow> s0
                | Some a \<Rightarrow> update_obj a (rotate_by (delta * (1 / 50)) (delta * (1 / 20))) s0)
      in case particleShaderMaterial s1 of None \<Rightarrow> s1
         | Some u \<Rightarrow>
             s1\<lparr>particleShaderMaterial :=
                   Some (set_uniform uMouse (UVec2 (fst (mouse s1)) (snd (mouse s1)))
                          (set_uniform uScrollProgress (UFloat (scrollProgress s1))
                            (set_uniform uTime (UFloat t) u)))\<rparr>)"

text \<open>
  \<^verbatim>\<open>_updateCamera\<close>: the camera's x moves a twentieth of the way towards half the
  pointer's x, its z a twentieth of the way towards 10 minus half the pointer's y.
\<close>

definition sway :: "jsnum \<times> jsnum \<Rightarrow> camera_state \<Rightarrow> camera_state" where
  "sway m c =
     c\<lparr>cam_position :=
         (lift2 (\<lambda>mx x. x + (mx * (1 / 2) - x) * (1 / 20)) (fst m) (fst (cam_position c)),
          fst (snd (cam_position c)),
          lift2 (\<lambda>my z. z + (10 + my * - (1 / 2) - z) * (1 / 20)) (snd m)
            (snd (snd (cam_position c))))\<rparr>"

definition updateCamera :: "experience \<Rightarrow> experience" where
  "updateCamera s = s\<lparr>camera := map_option (sway (mouse s)) (camera s)\<rparr>"

text \<open>
  \<^verbatim>\<open>_updateMouseLight\<close>: each coordinate of the light moves 0.08 of the way towards its
  target, which is 8 times the pointer's coordinate for x and y and 5 for z.
\<close>

definition follow :: "jsnum \<times> jsnum \<Rightarrow> vec3j \<Rightarrow> vec3j" where
  "follow m l =
     (lift2 (\<lambda>mx x. x + (mx * 8 - x) * (2 / 25)) (fst m) (fst l),
      lift2 (\<lambda>my y. y + (my * 8 - y) * (2 / 25)) (snd m) (fst (snd l)),
      map_option (\<lambda>z. z + (5 - z) * (2 / 25)) (snd (snd l)))"

definition updateMouseLight :: "experience \<Rightarrow> experience" where
  "updateMouseLight s = s\<lparr>mouseLight := map_option (follow (mouse s)) (mouseLight s)\<rparr>"

definition requestAnimationFrame :: "experience \<Rightarrow> nat \<times> experience" where
  "requestAnimationFrame s =
     (rafNext s, s\<lparr>rafQueue := rafQueue s @ [rafNext s], rafNext := rafNext s + 1\<rparr>)"

definition cancelAnimationFrame :: "nat \<Rightarrow> experience \<Rightarrow> experience" where
  "cancelAnimationFrame n s = s\<lparr>rafQueue := removeAll n (rafQueue s)\<rparr>"

text \<open>
  The first part of \<^verbatim>\<open>_tick\<close>, up to the update of the wave uniforms; \<open>delta\<close> is the
  result of \<^verbatim>\<open>clock.getDelta()\<close>.
\<close>

definition tick_update :: "real \<Rightarrow> experience \<Rightarrow> experience" where
  "tick_update delta s0 =
     (case requestAnimationFrame s0 of (n, sa) \<Rightarrow>
     (let s1 = sa\<lparr>animFrameId := Some n\<rparr>;
          s2 = s1\<lparr>time := time s1 + delta\<rparr>;
          t = time s2;
          s3 = updateCamera s2;
          s4 = updateMouseLight s3;
          s5 = (case heroMesh s4 of None \<Rightarrow> s4
                | Some a \<Rightarrow>
                    update_obj a
                      (\<lambda>ob. ob\<lparr>rotation := (t * (9 / 50), t * (3 / 25), snd (snd (rotation ob)))\<rparr>) s4);
          s6 = (case featuresMeshes s5 of None \<Rightarrow> s5
                | Some ms \<Rightarrow>
                    fold (\<lambda>i. update_obj (ms ! i)
                                 (rotate_by (delta * (3 / 10 + real i * (7 / 100)))
                                            (delta * (1 / 5 + real i * (1 / 20)))))
                      [0 ..< length ms] s5);
          s7 = (case contactSphere s6 of None \<Rightarrow> s6
                | Some a \<Rightarrow> update_obj a (rotate_by (delta * (3 / 20)) (delta * (2 / 5))) s6);
          s8 = updateOnScroll s7;
          s9 = updateParticles t delta s8;
          s10 = s9\<lparr>heroShaderMaterial := map_option (set_uniform uTime (UFloat t))
                                                 (heroShaderMaterial s9)\<rparr>
      in s10\<lparr>waveShaderMaterial :=
               map_option (\<lambda>u. set_uniform uAmplitude (UFloat (waveAmplitude s10))
                                   (set_uniform uTime (UFloat t) u))
                 (waveShaderMaterial s10)\<rparr>))"

text \<open>
  The update of the chromatic-aberration offset calls \<^verbatim>\<open>.set(x, y)\<close> on the uniform's
  value. A two-component vector has that method; a number has not, and the call then
  throws a \<^verbatim>\<open>TypeError\<close>.
\<close>

definition set_offset :: "real \<Rightarrow> uniforms \<Rightarrow> error + uniforms" where
  "set_offset vel u =
     (case u uOffset of None \<Rightarrow> Inr u
      | Some (UVec2 a b) \<Rightarrow> Inr (u(uOffset \<mapsto> UVec2 (Some (vel * (1 / 100))) (Some (vel * (1 / 100)))))
      | Some (UFloat a) \<Rightarrow> Inl TypeError
      | Some UNull \<Rightarrow> Inl TypeError)"

text \<open>
  \<^verbatim>\<open>_tick\<close>. The result is the state it leaves and the exception it throws, if any: a
  throw keeps every assignment made before it.
\<close>

definition tick :: "real \<Rightarrow> experience \<Rightarrow> experience \<times> error option" where
  "tick delta s0 =
     (let s1 = tick_update delta s0;
          vel = \<bar>case scrollVelocity s1 of None \<Rightarrow> 0 | Some v \<Rightarrow> v\<bar>
      in case (case chromaticAberrationPass s1 of None \<Rightarrow> Inr s1
               | Some u \<Rightarrow> (case set_offset vel u of Inl err \<Rightarrow> Inl err
                           | Inr u1 \<Rightarrow> Inr (s1\<lparr>chromaticAberrationPass := Some u1\<rparr>))) of
           Inl err \<Rightarrow> (s1, Some err)
         | Inr s2 \<Rightarrow>
             (case composer s2 of None \<Rightarrow> (s2, None)
              | Some c \<Rightarrow> (s2\<lparr>frames := frames s2 + 1\<rparr>, None)))"

text \<open>
  \<^verbatim>\<open>_onResize\<close>. No listener is registered with it: the only mention of it is in
  \<^verbatim>\<open>destroy\<close>.
\<close>

definition onResize :: "real \<Rightarrow> real \<Rightarrow> real \<Rightarrow> experience \<Rightarrow> experience" where
  "onResize w h dpr s =
     (let s1 = s\<lparr>this_width := Some w, this_height := Some h\<rparr>;
          s2 = s1\<lparr>camera := map_option (\<lambda>c. c\<lparr>aspect := jsdiv w h\<rparr>) (camera s1)\<rparr>;
          s3 = s2\<lparr>renderer := map_option (\<lambda>r. r\<lparr>size := (w, h), pixelRatio := min dpr 2\<rparr>)
                                          (renderer s2)\<rparr>
      in s3\<lparr>composer := map_option (\<lambda>c. c\<lparr>composerSize := Some (w, h)\<rparr>) (composer s3)\<rparr>)"

section \<open>Teardown\<close>

definition is_bar_tween :: "tween \<Rightarrow> bool" where
  "is_bar_tween t = (case t of BarTween i \<Rightarrow> True | ScaleTween a \<Rightarrow> False | PositionTween a \<Rightarrow> False)"

text \<open>
  \<^verbatim>\<open>destroy\<close>. \<^verbatim>\<open>this._onResize.bind(this)\<close> makes a new function object at each call,
  here \<open>BoundOnResize n\<close> with a fresh \<open>n\<close>. Killing a trigger also ends the timeline
  it drives. \<^verbatim>\<open>scene.traverse\<close> visits every object of the scene.
\<close>

definition destroy :: "experience \<Rightarrow> experience" where
  "destroy s0 =
     (let s1 = (case animFrameId s0 of None \<Rightarrow> s0
                | Some n \<Rightarrow> if 0 < n then (cancelAnimationFrame n s0)\<lparr>animFrameId := None\<rparr>
                            else s0);
          s2 = removeEventListener ''resize'' (Some (BoundOnResize (bindCount s1)))
                 (s1\<lparr>bindCount := bindCount s1 + 1\<rparr>);
          s3 = removeEventListener ''mousemove'' (onMouseMove s2) s2;
          s4 = s3\<lparr>scrollTriggers := [], tweens := filter (\<lambda>t. \<not> is_bar_tween t) (tweens s3)\<rparr>;
          s5 = s4\<lparr>renderer := map_option (\<lambda>r. r\<lparr>rendererDisposed := True, domAttached := False\<rparr>)
                                          (renderer s4)\<rparr>;
          s6 = s5\<lparr>composer := map_option (\<lambda>c. c\<lparr>targetsDisposed := True\<rparr>) (composer s5)\<rparr>
      in s6\<lparr>heap := map (\<lambda>ob. ob\<lparr>disposed := True\<rparr>) (heap s6)\<rparr>)"

section \<open>The engine under events\<close>

text \<open>
  The constructor runs the boot sequence, leaves the imports of
  \<^verbatim>\<open>_initPostProcessing\<close> and the 100 ms timer pending and runs the first tick, whose
  clock delta is 0. No composer exists at that tick, so it does not throw.
\<close>

definition constructor :: "env \<Rightarrow> nat \<Rightarrow> experience" where
  "constructor e cv =
     (let s1 = initRenderer e (new_instance e cv);
          s2 = initCamera s1;
          s3 = initLights s2;
          s4 = initGeometries e s3;
          s5 = initShaders s4;
          s6 = initParticleSystem e s5;
          s7 = s6\<lparr>importsPending := True\<rparr>;
          s8 = initEventListeners s7;
          s9 = s8\<lparr>timeoutPending := True\<rparr>
      in fst (tick 0 s9))"

text \<open>
  What can happen to a constructed engine: the browser runs a pending animation-frame
  callback (\<open>Frame\<close>), dispatches a window event to the listeners registered for it,
  fires the timer, settles the imports; the animation library calls a registered
  callback or writes to the target of a registered tween; the page calls
  \<^verbatim>\<open>destroy()\<close>, or calls \<^verbatim>\<open>_tick()\<close> directly (\<open>DirectTick\<close>).
\<close>

datatype event =
    Frame real
  | Scroll real real real
  | MouseMove real real
  | Resize real real real
  | Timeout
  | ImportsSettled modules
  | TriggerUpdate trigger real
  | TriggerEnter trigger
  | TweenWrite tween vec3
  | Destroy
  | DirectTick real

definition trigger_update :: "trigger \<Rightarrow> real \<Rightarrow> experience \<Rightarrow> experience" where
  "trigger_update t p s =
     (case t of
        CameraTrigger \<Rightarrow> camera_onUpdate p s
      | ShowcaseTrigger \<Rightarrow> showcase_onUpdate p s
      | ContactTrigger \<Rightarrow> contact_onUpdate p s
      | ParallaxTrigger i \<Rightarrow> parallax_onUpdate i p s
      | FeatureTrigger i \<Rightarrow> s
      | StatsTimeline \<Rightarrow> s)"

definition tween_write :: "tween \<Rightarrow> vec3 \<Rightarrow> experience \<Rightarrow> experience" where
  "tween_write t v s =
     (case t of
        ScaleTween a \<Rightarrow> update_obj a (\<lambda>ob. ob\<lparr>scale := v\<rparr>) s
      | PositionTween a \<Rightarrow> update_obj a (\<lambda>ob. ob\<lparr>position := v\<rparr>) s
      | BarTween i \<Rightarrow> s\<lparr>barHeights := (barHeights s)[i := fst v]\<rparr>)"

definition dispatch :: "event \<Rightarrow> experience \<Rightarrow> experience" where
  "dispatch ev s =
     (case ev of
        Frame delta \<Rightarrow>
          (case rafQueue s of [] \<Rightarrow> s
           | n # rest \<Rightarrow> fst (tick delta (s\<lparr>rafQueue := rest\<rparr>)))
      | Scroll y sh ih \<Rightarrow>
          (if (''scroll'', ScrollArrow) \<in> set (windowListeners s) then scroll_listener y sh ih s else s)
      | MouseMove cx cy \<Rightarrow>
          (if (''mousemove'', MouseMoveArrow) \<in> set (windowListeners s)
           then mousemove_listener cx cy s else s)
      | Resize w h dpr \<Rightarrow>
          (if (''resize'', ResizeArrow) \<in> set (windowListeners s) then resize_listener w h dpr s
           else s)
      | Timeout \<Rightarrow>
          (if timeoutPending s then initScrollAnimations (s\<lparr>timeoutPending := False\<rparr>) else s)
      | ImportsSettled m \<Rightarrow>
          (if importsPending s then initPostProcessing m (s\<lparr>importsPending := False\<rparr>) else s)
      | TriggerUpdate t p \<Rightarrow> (if t \<in> set (scrollTriggers s) then trigger_update t p s else s)
      | TriggerEnter t \<Rightarrow>
          (if t \<in> set (scrollTriggers s)
           then (case t of FeatureTrigger i \<Rightarrow> feature_onEnter i s
                 | CameraTrigger \<Rightarrow> s | ShowcaseTrigger \<Rightarrow> s | StatsTimeline \<Rightarrow> s
                 | ContactTrigger \<Rightarrow> s | ParallaxTrigger i \<Rightarrow> s)
           else s)
      | TweenWrite t v \<Rightarrow> (if t \<in> set (tweens s) then tween_write t v s else s)
      | Destroy \<Rightarrow> destroy s
      | DirectTick delta \<Rightarrow> fst (tick delta s))"

definition run :: "event list \<Rightarrow> experience \<Rightarrow> experience" where
  "run evs s = fold dispatch evs s"

section \<open>Loading the module\<close>

text \<open>
  \<^verbatim>\<open>experience.js\<close> is an ECMAScript module. In module code \<^verbatim>\<open>await\<close> is a reserved
  word, and an \<^verbatim>\<open>await\<close> expression is allowed in a function body only if that
  function is declared \<^verbatim>\<open>async\<close>; otherwise the module has an early error, a
  \<^verbatim>\<open>SyntaxError\<close> raised when the module is parsed, before any of it is evaluated.
  A method declaration is recorded with its name, whether it is declared
  \<^verbatim>\<open>async\<close>, and the number of \<^verbatim>\<open>await\<close> expressions directly in its body.
\<close>

record method_decl =
  method_name :: string
  is_async :: bool
  awaits :: nat

definition mdecl :: "string \<Rightarrow> bool \<Rightarrow> nat \<Rightarrow> method_decl" where
  "mdecl n a k = \<lparr> method_name = n, is_async = a, awaits = k \<rparr>"

text \<open>The methods of \<^verbatim>\<open>class Experience\<close>, in the order of the source.\<close>

definition Experience_methods :: "method_decl list" where
  "Experience_methods =
     [ mdecl ''constructor'' False 0,
       mdecl ''_initRenderer'' False 0,
       mdecl ''_initCamera'' False 0,
       mdecl ''_initLights'' False 0,
       mdecl ''_initGeometries'' False 0,
       mdecl ''_initEventListeners'' False 0,
       mdecl ''_getTorusVertexShader'' False 0,
       mdecl ''_getTorusFragmentShader'' False 0,
       mdecl ''_getWaveVertexShader'' False 0,
       mdecl ''_getWaveFragmentShader'' False 0,
       mdecl ''_getParticleVertexShader'' False 0,
       mdecl ''_getParticleFragmentShader'' False 0,
       mdecl ''_initShaders'' False 0,
       mdecl ''_initParticleSystem'' False 0,
       mdecl ''_initPostProcessing'' False 4,
       mdecl ''_initScrollAnimations'' False 0,
       mdecl ''_updateOnScroll'' False 0,
       mdecl ''_updateParticles'' False 0,
       mdecl ''_updateCamera'' False 0,
       mdecl ''_updateMouseLight'' False 0,
       mdecl ''_tick'' False 0,
       mdecl ''_onResize'' False 0,
       mdecl ''destroy'' False 0 ]"

definition early_error :: "method_decl \<Rightarrow> bool" where
  "early_error m = (0 < awaits m \<and> is_async m = False)"

definition load_module :: "method_decl list \<Rightarrow> error + method_decl list" where
  "load_module ms = (if list_ex early_error ms then Inl SyntaxError else Inr ms)"

text \<open>
  \<^verbatim>\<open>new Experience(canvas)\<close>, as \<^verbatim>\<open>main.js\<close> evaluates it: the class exists only if
  its module loaded. The sections above describe what the method bodies would do once
  loaded, with the awaits of \<^verbatim>\<open>_initPostProcessing\<close> read as suspension points.
\<close>

definition new_Experience :: "env \<Rightarrow> nat \<Rightarrow> error + experience" where
  "new_Experience e cv =
     (case load_module Experience_methods of
        Inl err \<Rightarrow> Inl err
      | Inr ms \<Rightarrow> Inr (constructor e cv))"

section \<open>The noise kernel of the particle shader\<close>

text \<open>
  The GLSL functions of \<^verbatim>\<open>_getParticleVertexShader\<close>, over the reals instead of
  single-precision floats. A \<^verbatim>\<open>vec3\<close> or \<^verbatim>\<open>vec4\<close> is a tuple; arithmetic on vectors
  is componentwise. The source's names \<^verbatim>\<open>n_\<close>, \<^verbatim>\<open>x_\<close>, \<^verbatim>\<open>y_\<close> are \<open>n7\<close>, \<open>xq\<close>,
  \<open>yq\<close> here, and the second value of a reassigned variable is primed.
\<close>

type_synonym vec4 = "real \<times> real \<times> real \<times> real"

definition X4 :: "vec4 \<Rightarrow> real" where "X4 v = fst v"
definition Y4 :: "vec4 \<Rightarrow> real" where "Y4 v = fst (snd v)"
definition Z4 :: "vec4 \<Rightarrow> real" where "Z4 v = fst (snd (snd v))"
definition W4 :: "vec4 \<Rightarrow> real" where "W4 v = snd (snd (snd v))"

definition X3 :: "vec3 \<Rightarrow> real" where "X3 v = fst v"
definition Y3 :: "vec3 \<Rightarrow> real" where "Y3 v = fst (snd v)"
definition Z3 :: "vec3 \<Rightarrow> real" where "Z3 v = snd (snd v)"

definition map3 :: "(real \<Rightarrow> real) \<Rightarrow> vec3 \<Rightarrow> vec3" where
  "map3 f v = (f (X3 v), f (Y3 v), f (Z3 v))"

definition zip3 :: "(real \<Rightarrow> real \<Rightarrow> real) \<Rightarrow> vec3 \<Rightarrow> vec3 \<Rightarrow> vec3" where
  "zip3 f a b = (f (X3 a) (X3 b), f (Y3 a) (Y3 b), f (Z3 a) (Z3 b))"

definition map4 :: "(real \<Rightarrow> real) \<Rightarrow> vec4 \<Rightarrow> vec4" where
  "map4 f v = (f (X4 v), f (Y4 v), f (Z4 v), f (W4 v))"

definition zip4 :: "(real \<Rightarrow> real \<Rightarrow> real) \<Rightarrow> vec4 \<Rightarrow> vec4 \<Rightarrow> vec4" where
  "zip4 f a b = (f (X4 a) (X4 b), f (Y4 a) (Y4 b), f (Z4 a) (Z4 b), f (W4 a) (W4 b))"

definition dot3 :: "vec3 \<Rightarrow> vec3 \<Rightarrow> real" where
  "dot3 a b = X3 a * X3 b + Y3 a * Y3 b + Z3 a * Z3 b"

definition dot4 :: "vec4 \<Rightarrow> vec4 \<Rightarrow> real" where
  "dot4 a b = X4 a * X4 b + Y4 a * Y4 b + Z4 a * Z4 b + W4 a * W4 b"

definition glsl_floor :: "real \<Rightarrow> real" where
  "glsl_floor x = of_int \<lfloor>x\<rfloor>"

text \<open>\<^verbatim>\<open>step(edge, x)\<close> is 0 when \<open>x < edge\<close> and 1 otherwise.\<close>

definition glsl_step :: "real \<Rightarrow> real \<Rightarrow> real" where
  "glsl_step edge x = (if x < edge then 0 else 1)"

definition mod289 :: "real \<Rightarrow> real" where
  "mod289 x = x - glsl_floor (x * (1 / 289)) * 289"

definition permute4 :: "vec4 \<Rightarrow> vec4" where
  "permute4 v = map4 (\<lambda>x. mod289 ((x * 34 + 1) * x)) v"

definition taylorInvSqrt4 :: "vec4 \<Rightarrow> vec4" where
  "taylorInvSqrt4 v =
     map4 (\<lambda>r. 179284291400159 / 100000000000000 - 85373472095314 / 100000000000000 * r) v"

definition snoise3 :: "vec3 \<Rightarrow> real" where
  "snoise3 v =
     (let Cx = 1 / 6; Cy = 1 / 3;
          i = map3 (\<lambda>c. glsl_floor (c + dot3 v (Cy, Cy, Cy))) v;
          x0 = map3 (\<lambda>c. c + dot3 i (Cx, Cx, Cx)) (zip3 (-) v i);
          g = zip3 glsl_step (Y3 x0, Z3 x0, X3 x0) x0;
          l = map3 (\<lambda>c. 1 - c) g;
          i1 = zip3 min g (Z3 l, X3 l, Y3 l);
          i2 = zip3 max g (Z3 l, X3 l, Y3 l);
          x1 = map3 (\<lambda>c. c + Cx) (zip3 (-) x0 i1);
          x2 = map3 (\<lambda>c. c + Cy) (zip3 (-) x0 i2);
          x3 = map3 (\<lambda>c. c - 1 / 2) x0;
          i' = map3 mod289 i;
          p = permute4 (map4 (\<lambda>c. c + X3 i')
                (zip4 (+)
                  (permute4 (map4 (\<lambda>c. c + Y3 i')
                     (zip4 (+)
                        (permute4 (map4 (\<lambda>c. Z3 i' + c) (0, Z3 i1, Z3 i2, 1)))
                        (0, Y3 i1, Y3 i2, 1))))
                  (0, X3 i1, X3 i2, 1)));
          n7 = 142857142857 / 1000000000000;
          ns = (n7 * 2 - 0, n7 * (1 / 2) - 1, n7 * 1 - 0);
          j = map4 (\<lambda>c. c - 49 * glsl_floor (c * Z3 ns * Z3 ns)) p;
          xq = map4 (\<lambda>c. glsl_floor (c * Z3 ns)) j;
          yq = map4 glsl_floor (zip4 (\<lambda>a b. a - 7 * b) j xq);
          x = map4 (\<lambda>c. c * X3 ns + Y3 ns) xq;
          y = map4 (\<lambda>c. c * X3 ns + Y3 ns) yq;
          h = zip4 (\<lambda>a b. 1 - \<bar>a\<bar> - \<bar>b\<bar>) x y;
          b0 = (X4 x, Y4 x, X4 y, Y4 y);
          b1 = (Z4 x, W4 x, Z4 y, W4 y);
          s0 = map4 (\<lambda>c. glsl_floor c * 2 + 1) b0;
          s1 = map4 (\<lambda>c. glsl_floor c * 2 + 1) b1;
          sh = map4 (\<lambda>c. - glsl_step c 0) h;
          a0 = zip4 (+) (X4 b0, Z4 b0, Y4 b0, W4 b0)
                 (zip4 (*) (X4 s0, Z4 s0, Y4 s0, W4 s0) (X4 sh, X4 sh, Y4 sh, Y4 sh));
          a1 = zip4 (+) (X4 b1, Z4 b1, Y4 b1, W4 b1)
                 (zip4 (*) (X4 s1, Z4 s1, Y4 s1, W4 s1) (Z4 sh, Z4 sh, W4 sh, W4 sh));
          p0 = (X4 a0, Y4 a0, X4 h);
          p1 = (Z4 a0, W4 a0, Y4 h);
          p2 = (X4 a1, Y4 a1, Z4 h);
          p3 = (Z4 a1, W4 a1, W4 h);
          norm = taylorInvSqrt4 (dot3 p0 p0, dot3 p1 p1, dot3 p2 p2, dot3 p3 p3);
          p0' = map3 (\<lambda>c. c * X4 norm) p0;
          p1' = map3 (\<lambda>c. c * Y4 norm) p1;
          p2' = map3 (\<lambda>c. c * Z4 norm) p2;
          p3' = map3 (\<lambda>c. c * W4 norm) p3;
          m = map4 (\<lambda>c. max (6 / 10 - c) 0) (dot3 x0 x0, dot3 x1 x1, dot3 x2 x2, dot3 x3 x3);
          m' = zip4 (*) m m
      in 42 * dot4 (zip4 (*) m' m') (dot3 p0' x0, dot3 p1' x1, dot3 p2' x2, dot3 p3' x3))"

definition eps :: real where
  "eps = 1 / 100"

definition curlNoise :: "vec3 \<Rightarrow> vec3" where
  "curlNoise p =
     ( (snoise3 (zip3 (+) p (0, eps, 0)) - snoise3 (zip3 (-) p (0, eps, 0))) / (2 * eps),
       (snoise3 (zip3 (+) p (0, 0, eps)) - snoise3 (zip3 (-) p (0, 0, eps))) / (2 * eps),
       (snoise3 (zip3 (+) p (eps, 0, 0)) - snoise3 (zip3 (-) p (eps, 0, 0))) / (2 * eps) )"

text \<open>
  The central-difference estimate, with step \<open>h\<close>, of the divergence of \<open>curlNoise\<close>
  at \<open>p\<close>: the sum over the three axes of the difference quotient of the field's
  component along that axis.
\<close>

definition divergence_estimate :: "real \<Rightarrow> vec3 \<Rightarrow> real" where
  "divergence_estimate h p =
     (X3 (curlNoise (zip3 (+) p (h, 0, 0))) - X3 (curlNoise (zip3 (-) p (h, 0, 0)))) / (2 * h)
   + (Y3 (curlNoise (zip3 (+) p (0, h, 0))) - Y3 (curlNoise (zip3 (-) p (0, h, 0)))) / (2 * h)
   + (Z3 (curlNoise (zip3 (+) p (0, 0, h))) - Z3 (curlNoise (zip3 (-) p (0, 0, h)))) / (2 * h)"

section \<open>Observations used in the statements\<close>

text \<open>The engine of the end-to-end scenarios: an 800 by 600 window.\<close>

definition example_env :: env where
  "example_env =
     \<lparr> innerWidth = 800, innerHeight = 600, devicePixelRatio = 1,
       random = (\<lambda>k. Abs_unit_interval 0), vertices_of = (\<lambda>g. []) \<rparr>"


definition missing_bloom :: modules where
  "missing_bloom =
     \<lparr> EffectComposer_loaded = True, RenderPass_loaded = True,
       UnrealBloomPass_loaded = False, ShaderPass_loaded = True \<rparr>"

definition all_loaded :: modules where
  "all_loaded =
     \<lparr> EffectComposer_loaded = True, RenderPass_loaded = True,
       UnrealBloomPass_loaded = True, ShaderPass_loaded = True \<rparr>"

definition camera_x :: "experience \<Rightarrow> jsnum" where
  "camera_x s = (case camera s of None \<Rightarrow> None | Some c \<Rightarrow> fst (cam_position c))"

definition camera_y :: "experience \<Rightarrow> jsnum" where
  "camera_y s = (case camera s of None \<Rightarrow> None | Some c \<Rightarrow> fst (snd (cam_position c)))"

definition light_x :: "experience \<Rightarrow> jsnum" where
  "light_x s = (case mouseLight s of None \<Rightarrow> None | Some l \<Rightarrow> fst l)"

text \<open>Successive ticks with the given clock deltas.\<close>

definition ticks :: "real list \<Rightarrow> experience \<Rightarrow> experience" where
  "ticks ds s = fold (\<lambda>d s1. fst (tick d s1)) ds s"

definition opt_list :: "'a option \<Rightarrow> 'a list" where
  "opt_list x = (case x of None \<Rightarrow> [] | Some a \<Rightarrow> [a])"

text \<open>
  The objects stored under \<^verbatim>\<open>this.meshes\<close> (hero, features, showcase, bars, contact
  points, contact sphere), and for each its position, rotation, scale and material.
\<close>

definition mesh_addrs :: "experience \<Rightarrow> addr list" where
  "mesh_addrs s =
     opt_list (meshes_hero s) @ meshes_features s @ opt_list (meshes_showcase s)
     @ meshes_bars s @ opt_list (meshes_contactPoints s) @ opt_list (meshes_contactSphere s)"

definition obj_view :: "object3d \<Rightarrow> vec3 \<times> vec3 \<times> vec3 \<times> material" where
  "obj_view ob = (position ob, rotation ob, scale ob, material ob)"

definition mesh_view :: "experience \<Rightarrow> (vec3 \<times> vec3 \<times> vec3 \<times> material) list" where
  "mesh_view s = map (\<lambda>a. obj_view (heap s ! a)) (mesh_addrs s)"

text \<open>The vertical distance between the first and the last section group.\<close>

definition totalSectionSpan :: "experience \<Rightarrow> real" where
  "totalSectionSpan s = heroGroup s - contactGroup s"

definition section_offsets :: "experience \<Rightarrow> real list" where
  "section_offsets s = [heroGroup s, featuresGroup s, showcaseGroup s, statsGroup s, contactGroup s]"

text \<open>
  The events that the browser and the animation library produce are all but a direct
  call of \<^verbatim>\<open>_tick\<close>. The scheduler is tidy when the only pending animation-frame
  request is the one recorded in \<^verbatim>\<open>_animFrameId\<close>.
\<close>

definition external :: "event \<Rightarrow> bool" where
  "external ev = (case ev of DirectTick d \<Rightarrow> False | Frame d \<Rightarrow> True | Scroll y sh ih \<Rightarrow> True
     | MouseMove cx cy \<Rightarrow> True | Resize w h dpr \<Rightarrow> True | Timeout \<Rightarrow> True
     | ImportsSettled m \<Rightarrow> True | TriggerUpdate t p \<Rightarrow> True | TriggerEnter t \<Rightarrow> True
     | TweenWrite t v \<Rightarrow> True | Destroy \<Rightarrow> True)"

definition tidy :: "experience \<Rightarrow> bool" where
  "tidy s = (rafQueue s = opt_list (animFrameId s) \<and> 0 \<notin> set (rafQueue s) \<and> 0 < rafNext s)"

text \<open>The scrubbed targets, and the delivery of one progress value to the scrubbed triggers.\<close>

definition targets :: "experience \<Rightarrow> real \<times> real list \<times> real" where
  "targets s = (waveAmplitude s, barHeights s, contactSphereScale s)"

definition scrub :: "real \<Rightarrow> event list" where
  "scrub p = [TriggerUpdate ShowcaseTrigger p, TriggerUpdate StatsTimeline p,
              TriggerUpdate ContactTrigger p]"

text \<open>
  What the boot sequence establishes and every later event keeps: the properties that
  the source reads but never assigns are unset, no tween is registered, the scene holds
  the eleven meshes at addresses 0 to 10 and the particle system at address 11, and the
  camera, the point light and the three window listeners exist, and no frame has been
  submitted: either there is no composer, or the offset uniform of the
  chromatic-aberration pass holds a number.
\<close>

definition offset_is_number :: "uniforms option \<Rightarrow> bool" where
  "offset_is_number cp =
     (case cp of None \<Rightarrow> False | Some u \<Rightarrow> u uOffset = Some (UFloat (3 / 1000)))"

definition booted :: "experience \<Rightarrow> bool" where
  "booted s =
     (torusKnot s = None \<and> showcasePlane s = None \<and> heroMesh s = None
      \<and> featuresMeshes s = None \<and> waveMesh s = None \<and> statsBars s = None
      \<and> contactSphere s = None \<and> parallaxGroups s = None
      \<and> heroShaderMaterial s = None \<and> waveShaderMaterial s = None
      \<and> particleShaderMaterial s = None \<and> onMouseMove s = None
      \<and> tweens s = [] \<and> particleSystem s = Some 11 \<and> length (heap s) = 12
      \<and> mesh_addrs s = [0, 1, 2, 3, 4, 5, 6, 7, 8, 9, 10]
      \<and> section_offsets s = [0, - 10, - 20, - 30, - 40]
      \<and> barHeights s = [0, 0, 0, 0]
      \<and> \<not> Option.is_none (camera s) \<and> \<not> Option.is_none (mouseLight s)
      \<and> frames s = 0
      \<and> ((chromaticAberrationPass s = None \<and> composer s = None)
           \<or> offset_is_number (chromaticAberrationPass s))
      \<and> windowListeners s
          = [(''resize'', ResizeArrow), (''mousemove'', MouseMoveArrow), (''scroll'', ScrollArrow)])"

text \<open>
  The scene objects and the state that the boot sequence leaves before the first tick,
  named for use in the statements below.
\<close>

definition scene_meshes :: "env \<Rightarrow> object3d list" where
  "scene_meshes e = heap (initGeometries e (new_instance e 0))"

definition particle_object :: "env \<Rightarrow> object3d" where
  "particle_object e = last (heap (initParticleSystem e (new_instance e 0)))"

definition booted_state :: "env \<Rightarrow> nat \<Rightarrow> experience" where
  "booted_state e cv =
     (initEventListeners (initParticleSystem e (initShaders (initGeometries e
        (initLights (initCamera (initRenderer e (new_instance e cv))))))\<lparr>importsPending := True\<rparr>))
     \<lparr>timeoutPending := True\<rparr>"

section \<open>Loading fails\<close>

lemma load_module_async_ok:
  "load_module [mdecl ''_initPostProcessing'' True 4] = Inr [mdecl ''_initPostProcessing'' True 4]"
  by (simp add: load_module_def early_error_def mdecl_def)

text \<open>
  C1. \<^verbatim>\<open>_initPostProcessing\<close> holds four \<^verbatim>\<open>await\<close> expressions and is not declared
  \<^verbatim>\<open>async\<close>, so the module fails to load with a \<^verbatim>\<open>SyntaxError\<close>, and for every
  environment and every canvas \<^verbatim>\<open>new Experience(canvas)\<close> yields no engine.
\<close>

theorem construction_never_completes:
  "new_Experience e cv = Inl SyntaxError"
  by (simp add: new_Experience_def load_module_def Experience_methods_def early_error_def
      mdecl_def)

section \<open>Scroll progress\<close>

text \<open>
  C2. After the scroll listener has run, the scroll progress is exactly 0 when the
  scroll extent \<open>scrollHeight - innerHeight\<close> is at most 0, and lies between 0 and 1
  when \<open>scrollY\<close> lies between 0 and the extent.
\<close>

theorem scroll_progress_range:
  "(sh - ih \<le> 0 \<longrightarrow> scrollProgress (scroll_listener y sh ih s) = 0)
   \<and> (0 \<le> y \<and> y \<le> sh - ih \<longrightarrow>
        0 \<le> scrollProgress (scroll_listener y sh ih s)
        \<and> scrollProgress (scroll_listener y sh ih s) \<le> 1)"
  by (simp add: scroll_listener_def Let_def)

theorem scroll_progress_range_witness:
  "scrollProgress (scroll_listener 0 600 600 (constructor example_env 0)) = 0
   \<and> 0 \<le> scrollProgress (scroll_listener 300 2600 600 (constructor example_env 0))
   \<and> scrollProgress (scroll_listener 300 2600 600 (constructor example_env 0)) \<le> 1"
  using scroll_progress_range [of 600 600 0 "constructor example_env 0"]
    scroll_progress_range [of 2600 600 300 "constructor example_env 0"]
  by simp

section \<open>A tick of a booted engine\<close>

lemma updateOnScroll_unset:
  assumes "waveMesh s = None" "statsBars s = None" "contactSphere s = None"
  shows "updateOnScroll s = s"
  using assms by (simp add: updateOnScroll_def cong: let_weak_cong)

lemma updateParticles_unset:
  assumes "particleShaderMaterial s = None" "particleSystem s = Some a"
  shows "updateParticles t d s = update_obj a (rotate_by (d * (1 / 50)) (d * (1 / 20))) s"
  using assms by (simp add: updateParticles_def Let_def update_obj_def)

lemma tick_update_unset:
  assumes "heroMesh s = None" "featuresMeshes s = None" "waveMesh s = None" "statsBars s = None"
     "contactSphere s = None" "heroShaderMaterial s = None" "waveShaderMaterial s = None"
     "particleShaderMaterial s = None" "particleSystem s = Some a"
  shows "tick_update d s =
     s\<lparr>rafQueue := rafQueue s @ [rafNext s], rafNext := rafNext s + 1,
       animFrameId := Some (rafNext s), time := time s + d,
       camera := map_option (sway (mouse s)) (camera s),
       mouseLight := map_option (follow (mouse s)) (mouseLight s),
       heap := (heap s)[a := rotate_by (d * (1 / 50)) (d * (1 / 20)) (heap s ! a)]\<rparr>"
  using assms
  by (simp add: tick_update_def requestAnimationFrame_def Let_def updateCamera_def
      updateMouseLight_def updateOnScroll_unset updateParticles_unset update_obj_def
      cong: let_weak_cong)

lemma tick_no_render:
  assumes "(chromaticAberrationPass s = None \<and> composer s = None)
           \<or> offset_is_number (chromaticAberrationPass s)"
    and "chromaticAberrationPass (tick_update d s) = chromaticAberrationPass s"
    and "composer (tick_update d s) = composer s"
  shows "tick d s = (tick_update d s, if chromaticAberrationPass s = None then None else Some TypeError)"
proof (cases "chromaticAberrationPass s")
  case None
  with assms show ?thesis by (simp add: tick_def Let_def offset_is_number_def)
next
  case (Some u)
  with assms have "set_offset v u = Inl TypeError" for v
    by (simp add: set_offset_def offset_is_number_def)
  with Some assms show ?thesis by (simp add: tick_def Let_def)
qed

lemma tick_booted:
  assumes "booted s"
  shows "fst (tick d s) =
     s\<lparr>rafQueue := rafQueue s @ [rafNext s], rafNext := rafNext s + 1,
       animFrameId := Some (rafNext s), time := time s + d,
       camera := map_option (sway (mouse s)) (camera s),
       mouseLight := map_option (follow (mouse s)) (mouseLight s),
       heap := (heap s)[11 := rotate_by (d * (1 / 50)) (d * (1 / 20)) (heap s ! 11)]\<rparr>"
proof -
  have u: "tick_update d s =
     s\<lparr>rafQueue := rafQueue s @ [rafNext s], rafNext := rafNext s + 1,
       animFrameId := Some (rafNext s), time := time s + d,
       camera := map_option (sway (mouse s)) (camera s),
       mouseLight := map_option (follow (mouse s)) (mouseLight s),
       heap := (heap s)[11 := rotate_by (d * (1 / 50)) (d * (1 / 20)) (heap s ! 11)]\<rparr>"
    using assms by (intro tick_update_unset) (simp_all add: booted_def)
  have "fst (tick d s) = tick_update d s"
    using assms by (subst tick_no_render) (simp_all add: booted_def u)
  with u show ?thesis by simp
qed

section \<open>What the boot sequence establishes\<close>

lemma length_scene_meshes: "length (scene_meshes e) = 11"
  by (simp add: scene_meshes_def initGeometries_def alloc_def add_feature_def add_bar_def
      featureXPositions_def barXPositions_def new_instance_def Let_def cong: let_weak_cong)

lemma initGeometries_shape:
  assumes "heap s = []"
  shows "initGeometries e s =
     s\<lparr>heroGroup := 0, featuresGroup := - 10, showcaseGroup := - 20, statsGroup := - 30,
       contactGroup := - 40, heap := scene_meshes e, meshes_hero := Some 0,
       meshes_features := [1, 2, 3], meshes_showcase := Some 4, meshes_bars := [5, 6, 7, 8],
       meshes_contactPoints := Some 9, meshes_contactSphere := Some 10\<rparr>"
  using assms
  by (simp add: scene_meshes_def initGeometries_def alloc_def add_feature_def add_bar_def
      featureXPositions_def barXPositions_def new_instance_def Let_def cong: let_weak_cong)

lemma initShaders_unset:
  assumes "torusKnot s = None"
  shows "initShaders s = s"
  using assms by (simp add: initShaders_def)

lemma initParticleSystem_shape:
  "initParticleSystem e s =
     s\<lparr>particleAttributes :=
         Some (generate_particles (\<lambda>k. Rep_unit_interval (random e k)) particle_count),
       particleUniforms := Some [uTime \<mapsto> UFloat 0, uScrollProgress \<mapsto> UFloat 0,
                                 uMouse \<mapsto> UVec2 (Some 0) (Some 0), uSize \<mapsto> UFloat 2],
       heap := heap s @ [particle_object e],
       particleSystem := Some (length (heap s))\<rparr>"
  by (simp add: particle_object_def initParticleSystem_def alloc_def new_instance_def Let_def
      cong: let_weak_cong)

lemma initEventListeners_fresh:
  assumes "windowListeners s = []"
  shows "initEventListeners s =
     s\<lparr>windowListeners :=
         [(''resize'', ResizeArrow), (''mousemove'', MouseMoveArrow), (''scroll'', ScrollArrow)]\<rparr>"
  using assms by (simp add: initEventListeners_def addEventListener_def)

lemma constructor_eq: "constructor e cv = fst (tick 0 (booted_state e cv))"
  by (simp add: constructor_def booted_state_def Let_def)

lemma booted_state_eq:
  "booted_state e cv =
     (new_instance e cv)
     \<lparr>renderer := Some \<lparr> pixelRatio = min (devicePixelRatio e) 2,
                             size = (innerWidth e, innerHeight e),
                             rendererDisposed = False, domAttached = True \<rparr>,
      camera := Some \<lparr> cam_position = (Some 0, Some 0, Some 5),
                          aspect = jsdiv (innerWidth e) (innerHeight e) \<rparr>,
      mouseLight := Some (Some 0, Some 0, Some 0),
      heroGroup := 0, featuresGroup := - 10, showcaseGroup := - 20, statsGroup := - 30,
      contactGroup := - 40, meshes_hero := Some 0,
      meshes_features := [1, 2, 3], meshes_showcase := Some 4, meshes_bars := [5, 6, 7, 8],
      meshes_contactPoints := Some 9, meshes_contactSphere := Some 10,
      particleAttributes :=
         Some (generate_particles (\<lambda>k. Rep_unit_interval (random e k)) particle_count),
      particleUniforms := Some [uTime \<mapsto> UFloat 0, uScrollProgress \<mapsto> UFloat 0,
                                uMouse \<mapsto> UVec2 (Some 0) (Some 0), uSize \<mapsto> UFloat 2],
      heap := scene_meshes e @ [particle_object e],
      particleSystem := Some 11,
      importsPending := True,
      windowListeners :=
         [(''resize'', ResizeArrow), (''mousemove'', MouseMoveArrow), (''scroll'', ScrollArrow)],
      timeoutPending := True\<rparr>"
  by (simp add: booted_state_def initRenderer_def initCamera_def initLights_def
      initGeometries_shape initShaders_unset initParticleSystem_shape initEventListeners_fresh
      length_scene_meshes new_instance_def)

lemma booted_booted_state: "booted (booted_state e cv)"
  by (simp add: booted_state_eq booted_def new_instance_def mesh_addrs_def opt_list_def
      section_offsets_def length_scene_meshes)

section \<open>Every event keeps the engine booted\<close>

lemma booted_tick:
  assumes "booted s"
  shows "booted (fst (tick d s))"
  unfolding tick_booted [OF assms]
  using assms
  by (simp add: booted_def mesh_addrs_def section_offsets_def)

lemma booted_constructor: "booted (constructor e cv)"
  by (simp add: constructor_eq booted_tick booted_booted_state)

lemma booted_mousemove:
  assumes "booted s"
  shows "booted (mousemove_listener cx cy s)"
  using assms by (simp add: mousemove_listener_def booted_def mesh_addrs_def section_offsets_def)

lemma booted_scroll:
  assumes "booted s"
  shows "booted (scroll_listener y sh ih s)"
  using assms
  by (simp add: scroll_listener_def booted_def mesh_addrs_def section_offsets_def Let_def)

lemma booted_resize:
  assumes "booted s"
  shows "booted (resize_listener w h dpr s)"
  using assms
  by (simp add: resize_listener_def booted_def mesh_addrs_def section_offsets_def Let_def
      split: option.splits)

lemma initScrollAnimations_unset:
  assumes "heroMesh s = None" "featuresMeshes s = None" "statsBars s = None"
    "parallaxGroups s = None"
  shows "initScrollAnimations s =
     s\<lparr>scrollTriggers := scrollTriggers s @ [CameraTrigger, ShowcaseTrigger, ContactTrigger],
       contactSphereScale := 1\<rparr>"
  using assms
  by (simp add: initScrollAnimations_def create_trigger_def Let_def cong: let_weak_cong)

lemma booted_timeout:
  assumes "booted s"
  shows "booted (initScrollAnimations (s\<lparr>timeoutPending := False\<rparr>))"
  using assms
  by (subst initScrollAnimations_unset)
     (simp_all add: booted_def mesh_addrs_def section_offsets_def)

lemma booted_imports:
  assumes "booted s"
  shows "booted (initPostProcessing m (s\<lparr>importsPending := False\<rparr>))"
  using assms
  by (simp add: initPostProcessing_def booted_def mesh_addrs_def section_offsets_def
      offset_is_number_def)

lemma booted_trigger_update:
  assumes "booted s"
  shows "booted (trigger_update t p s)"
  using assms
  by (cases t)
     (simp_all add: trigger_update_def camera_onUpdate_def showcase_onUpdate_def
       contact_onUpdate_def parallax_onUpdate_def booted_def mesh_addrs_def section_offsets_def
       Let_def)

lemma booted_destroy:
  assumes "booted s"
  shows "booted (destroy s)"
  using assms
  by (simp add: destroy_def cancelAnimationFrame_def removeEventListener_def booted_def
      mesh_addrs_def section_offsets_def Let_def split: option.splits)

lemma booted_dispatch:
  assumes "booted s"
  shows "booted (dispatch ev s)"
proof (cases ev)
  case (Frame d)
  show ?thesis
  proof (cases "rafQueue s")
    case Nil
    with Frame assms show ?thesis by (simp add: dispatch_def)
  next
    case (Cons n rest)
    from assms have "booted (s\<lparr>rafQueue := rest\<rparr>)"
      by (simp add: booted_def mesh_addrs_def section_offsets_def)
    then have "booted (fst (tick d (s\<lparr>rafQueue := rest\<rparr>)))"
      by (rule booted_tick)
    with Frame Cons show ?thesis by (simp add: dispatch_def)
  qed
next
  case (TriggerEnter t)
  from assms have "featuresMeshes s = None" by (simp add: booted_def)
  with TriggerEnter assms show ?thesis
    by (cases t) (simp_all add: dispatch_def feature_onEnter_def)
next
  case (TweenWrite t v)
  from assms have "tweens s = []" by (simp add: booted_def)
  with TweenWrite assms show ?thesis by (simp add: dispatch_def)
qed (use assms in \<open>simp_all add: dispatch_def booted_mousemove booted_scroll booted_resize
      booted_timeout booted_imports booted_trigger_update booted_destroy booted_tick\<close>)

lemma booted_run:
  assumes "booted s"
  shows "booted (run evs s)"
  using assms unfolding run_def
  by (induction evs arbitrary: s) (simp_all add: booted_dispatch)

lemma booted_reachable: "booted (run evs (constructor e cv))"
  by (simp add: booted_run booted_constructor)

section \<open>The meshes never change\<close>

lemma mesh_view_same:
  assumes "heap s' = heap s" "meshes_hero s' = meshes_hero s"
    "meshes_features s' = meshes_features s" "meshes_showcase s' = meshes_showcase s"
    "meshes_bars s' = meshes_bars s" "meshes_contactPoints s' = meshes_contactPoints s"
    "meshes_contactSphere s' = meshes_contactSphere s"
  shows "mesh_view s' = mesh_view s"
  using assms by (simp add: mesh_view_def mesh_addrs_def)

lemma mesh_view_eqI:
  assumes "mesh_addrs s = [0, 1, 2, 3, 4, 5, 6, 7, 8, 9, 10]"
    and "mesh_addrs s' = mesh_addrs s"
    and "\<And>a. a < 11 \<Longrightarrow> obj_view (heap s' ! a) = obj_view (heap s ! a)"
  shows "mesh_view s' = mesh_view s"
  using assms by (simp add: mesh_view_def)

lemma mesh_view_tick:
  assumes "booted s"
  shows "mesh_view (fst (tick d s)) = mesh_view s"
proof (rule mesh_view_eqI)
  show "mesh_addrs s = [0, 1, 2, 3, 4, 5, 6, 7, 8, 9, 10]"
    using assms by (simp add: booted_def)
  show "mesh_addrs (fst (tick d s)) = mesh_addrs s"
    by (simp add: tick_booted [OF assms] mesh_addrs_def)
  show "obj_view (heap (fst (tick d s)) ! a) = obj_view (heap s ! a)" if "a < 11" for a
    using that by (simp add: tick_booted [OF assms])
qed

lemma mesh_view_destroy:
  assumes "booted s"
  shows "mesh_view (destroy s) = mesh_view s"
proof (rule mesh_view_eqI)
  show "mesh_addrs s = [0, 1, 2, 3, 4, 5, 6, 7, 8, 9, 10]"
    using assms by (simp add: booted_def)
  show "mesh_addrs (destroy s) = mesh_addrs s"
    by (simp add: destroy_def cancelAnimationFrame_def removeEventListener_def mesh_addrs_def
        Let_def split: option.splits)
  have "heap (destroy s) = map (\<lambda>ob. ob\<lparr>disposed := True\<rparr>) (heap s)"
    by (simp add: destroy_def cancelAnimationFrame_def removeEventListener_def Let_def
        split: option.splits)
  moreover from assms have "length (heap s) = 12" by (simp add: booted_def)
  ultimately show "obj_view (heap (destroy s) ! a) = obj_view (heap s ! a)" if "a < 11" for a
    using that by (simp add: obj_view_def)
qed

lemma mesh_view_trigger_update:
  assumes "booted s"
  shows "mesh_view (trigger_update t p s) = mesh_view s"
proof -
  from assms have "parallaxGroups s = None" by (simp add: booted_def)
  then show ?thesis
    by (cases t; intro mesh_view_same)
       (simp_all add: trigger_update_def camera_onUpdate_def showcase_onUpdate_def
         contact_onUpdate_def parallax_onUpdate_def Let_def)
qed

lemma mesh_view_dispatch:
  assumes "booted s"
  shows "mesh_view (dispatch ev s) = mesh_view s"
proof (cases ev)
  case (Frame d)
  show ?thesis
  proof (cases "rafQueue s")
    case Nil
    with Frame show ?thesis by (simp add: dispatch_def)
  next
    case (Cons n rest)
    from assms have "booted (s\<lparr>rafQueue := rest\<rparr>)"
      by (simp add: booted_def mesh_addrs_def section_offsets_def)
    then have "mesh_view (fst (tick d (s\<lparr>rafQueue := rest\<rparr>))) = mesh_view (s\<lparr>rafQueue := rest\<rparr>)"
      by (rule mesh_view_tick)
    moreover have "mesh_view (s\<lparr>rafQueue := rest\<rparr>) = mesh_view s"
      by (rule mesh_view_same) simp_all
    ultimately show ?thesis using Frame Cons by (simp add: dispatch_def)
  qed
next
  case (Scroll y sh ih)
  have "mesh_view (scroll_listener y sh ih s) = mesh_view s"
    by (rule mesh_view_same) (simp_all add: scroll_listener_def Let_def)
  with Scroll show ?thesis by (simp add: dispatch_def)
next
  case (MouseMove cx cy)
  have "mesh_view (mousemove_listener cx cy s) = mesh_view s"
    by (rule mesh_view_same) (simp_all add: mousemove_listener_def)
  with MouseMove show ?thesis by (simp add: dispatch_def)
next
  case (Resize w h dpr)
  have "mesh_view (resize_listener w h dpr s) = mesh_view s"
    by (rule mesh_view_same) (simp_all add: resize_listener_def Let_def)
  with Resize show ?thesis by (simp add: dispatch_def)
next
  case Timeout
  from assms have "initScrollAnimations (s\<lparr>timeoutPending := False\<rparr>) =
     s\<lparr>timeoutPending := False,
       scrollTriggers := scrollTriggers s @ [CameraTrigger, ShowcaseTrigger, ContactTrigger],
       contactSphereScale := 1\<rparr>"
    by (subst initScrollAnimations_unset) (simp_all add: booted_def)
  then have "mesh_view (initScrollAnimations (s\<lparr>timeoutPending := False\<rparr>)) = mesh_view s"
    by (intro mesh_view_same) simp_all
  with Timeout show ?thesis by (simp add: dispatch_def)
next
  case (ImportsSettled m)
  have "mesh_view (initPostProcessing m (s\<lparr>importsPending := False\<rparr>)) = mesh_view s"
    by (rule mesh_view_same) (simp_all add: initPostProcessing_def)
  with ImportsSettled show ?thesis by (simp add: dispatch_def)
next
  case (TriggerUpdate t p)
  with assms show ?thesis by (simp add: dispatch_def mesh_view_trigger_update)
next
  case (TriggerEnter t)
  from assms have "featuresMeshes s = None" by (simp add: booted_def)
  with TriggerEnter show ?thesis
    by (cases t) (simp_all add: dispatch_def feature_onEnter_def)
next
  case (TweenWrite t v)
  from assms have "tweens s = []" by (simp add: booted_def)
  with TweenWrite show ?thesis by (simp add: dispatch_def)
next
  case Destroy
  with assms show ?thesis by (simp add: dispatch_def mesh_view_destroy)
next
  case (DirectTick d)
  with assms show ?thesis by (simp add: dispatch_def mesh_view_tick)
qed

lemma mesh_view_run:
  assumes "booted s"
  shows "mesh_view (run evs s) = mesh_view s"
  using assms unfolding run_def
  by (induction evs arbitrary: s) (simp_all add: mesh_view_dispatch booted_dispatch)

lemma scene_meshes_eq:
  "scene_meshes e =
     [ new_object e (TorusKnotGeometry (6 / 5) (2 / 5) 200 32) MeshStandardMaterial,
       (new_object e (IcosahedronGeometry (3 / 5) 1) MeshStandardMaterial)\<lparr>position := (- 5 / 2, 0, 0)\<rparr>,
       (new_object e (IcosahedronGeometry (3 / 5) 1) MeshStandardMaterial)\<lparr>position := (0, 0, 0)\<rparr>,
       (new_object e (IcosahedronGeometry (3 / 5) 1) MeshStandardMaterial)\<lparr>position := (5 / 2, 0, 0)\<rparr>,
       (new_object e (PlaneGeometry 8 6 128 128) MeshStandardMaterial)\<lparr>rotation := (- pi / 3, 0, 0)\<rparr>,
       (new_object e (BoxGeometry (3 / 5) 2 (3 / 5)) MeshStandardMaterial)\<lparr>position := (- 9 / 4, 0, 0)\<rparr>,
       (new_object e (BoxGeometry (3 / 5) 3 (3 / 5)) MeshStandardMaterial)\<lparr>position := (- 3 / 4, 0, 0)\<rparr>,
       (new_object e (BoxGeometry (3 / 5) (5 / 2) (3 / 5)) MeshStandardMaterial)\<lparr>position := (3 / 4, 0, 0)\<rparr>,
       (new_object e (BoxGeometry (3 / 5) (7 / 2) (3 / 5)) MeshStandardMaterial)\<lparr>position := (9 / 4, 0, 0)\<rparr>,
       new_object e (SphereGeometry (3 / 2) 64 64) PointsMaterial,
       new_object e (SphereGeometry 1 32 32) MeshStandardMaterial ]"
  by (simp add: scene_meshes_def initGeometries_def alloc_def add_feature_def add_bar_def
      featureXPositions_def barXPositions_def barBaseHeights_def new_instance_def Let_def
      cong: let_weak_cong)

lemma mesh_view_constructor:
  "mesh_view (constructor e cv) = map obj_view (scene_meshes e)"
proof -
  have "mesh_view (constructor e cv) = mesh_view (booted_state e cv)"
    by (simp add: constructor_eq mesh_view_tick booted_booted_state)
  also have "\<dots> = map obj_view (scene_meshes e)"
    by (simp add: booted_state_eq mesh_view_def mesh_addrs_def opt_list_def new_instance_def
        scene_meshes_eq)
  finally show ?thesis .
qed

text \<open>
  C3. In every state \<open>s\<close> that the constructed engine can reach, the properties that the
  source reads but never assigns (\<^verbatim>\<open>torusKnot\<close>, \<^verbatim>\<open>showcasePlane\<close>, \<^verbatim>\<open>heroMesh\<close>,
  \<^verbatim>\<open>featuresMeshes\<close>, \<^verbatim>\<open>waveMesh\<close>, \<^verbatim>\<open>statsBars\<close>, \<^verbatim>\<open>contactSphere\<close> and the three
  shader-material properties) are unset; a tick leaves position, rotation, scale and
  material of the eleven meshes under \<^verbatim>\<open>this.meshes\<close> as they are, and they are still
  those of construction, with the standard and points materials and no shader material.
  Beside the new animation-frame request, the tick changes only the elapsed time, the
  camera, the point light and the particle system at address 11, which is rotated. The
  uniforms are not written either, the shader-material properties being unset.
\<close>

theorem tick_leaves_meshes:
  "let s = run evs (constructor e cv); s' = fst (tick d s) in
     booted s
     \<and> mesh_view s' = mesh_view s
     \<and> mesh_view s = map obj_view (scene_meshes e)
     \<and> map material (scene_meshes e) =
         [MeshStandardMaterial, MeshStandardMaterial, MeshStandardMaterial, MeshStandardMaterial,
          MeshStandardMaterial, MeshStandardMaterial, MeshStandardMaterial, MeshStandardMaterial,
          MeshStandardMaterial, PointsMaterial, MeshStandardMaterial]
     \<and> s' = s\<lparr>rafQueue := rafQueue s @ [rafNext s], rafNext := rafNext s + 1,
               animFrameId := Some (rafNext s), time := time s + d,
               camera := map_option (sway (mouse s)) (camera s),
               mouseLight := map_option (follow (mouse s)) (mouseLight s),
               heap := (heap s)[11 := rotate_by (d * (1 / 50)) (d * (1 / 20)) (heap s ! 11)]\<rparr>"
proof -
  have b: "booted (run evs (constructor e cv))" by (rule booted_reachable)
  have "mesh_view (run evs (constructor e cv)) = map obj_view (scene_meshes e)"
    by (simp add: mesh_view_run booted_constructor mesh_view_constructor)
  moreover have "map material (scene_meshes e) =
         [MeshStandardMaterial, MeshStandardMaterial, MeshStandardMaterial, MeshStandardMaterial,
          MeshStandardMaterial, MeshStandardMaterial, MeshStandardMaterial, MeshStandardMaterial,
          MeshStandardMaterial, PointsMaterial, MeshStandardMaterial]"
    by (simp add: scene_meshes_eq new_object_def)
  ultimately show ?thesis
    using b mesh_view_tick [OF b, of d] tick_booted [OF b, of d] by (simp add: Let_def)
qed

section \<open>Pointer damping\<close>

lemma camera_x_tick:
  assumes "booted s" "mouse s = (Some 1, Some 1)" "camera_x s = Some x"
  shows "camera_x (fst (tick d s)) = Some (x + (1 / 2 - x) * (1 / 20))"
  using assms(2,3)
  by (cases "camera s")
     (simp_all add: tick_booted [OF assms(1)] camera_x_def sway_def lift2_def)

lemma light_x_tick:
  assumes "booted s" "mouse s = (Some 1, Some 1)" "light_x s = Some x"
  shows "light_x (fst (tick d s)) = Some (x + (8 - x) * (2 / 25))"
  using assms(2,3)
  by (cases "mouseLight s")
     (simp_all add: tick_booted [OF assms(1)] light_x_def follow_def lift2_def)

lemma mouse_tick:
  assumes "booted s"
  shows "mouse (fst (tick d s)) = mouse s"
  by (simp add: tick_booted [OF assms])

lemma ticks_Cons: "ticks (d # ds) s = ticks ds (fst (tick d s))"
  by (simp add: ticks_def)

lemma ticks_closed_form:
  assumes "booted s" "mouse s = (Some 1, Some 1)" "camera_x s = Some x" "light_x s = Some l"
  shows "camera_x (ticks ds s) = Some (1 / 2 - (1 / 2 - x) * (19 / 20) ^ length ds)
       \<and> light_x (ticks ds s) = Some (8 - (8 - l) * (23 / 25) ^ length ds)"
  using assms
proof (induction ds arbitrary: s x l)
  case Nil
  then show ?case by (simp add: ticks_def)
next
  case (Cons d ds)
  let ?s = "fst (tick d s)"
  have b: "booted ?s" using Cons.prems(1) by (rule booted_tick)
  have m: "mouse ?s = (Some 1, Some 1)" using Cons.prems(1,2) by (simp add: mouse_tick)
  have c: "camera_x ?s = Some (x + (1 / 2 - x) * (1 / 20))"
    using Cons.prems(1,2,3) by (rule camera_x_tick)
  have l: "light_x ?s = Some (l + (8 - l) * (2 / 25))"
    using Cons.prems(1,2,4) by (rule light_x_tick)
  have e1: "1 / 2 - (1 / 2 - (x + (1 / 2 - x) * (1 / 20))) * (19 / 20) ^ length ds
      = 1 / 2 - (1 / 2 - x) * (19 / 20) ^ length (d # ds)"
    by (simp add: field_simps)
  have e2: "8 - (8 - (l + (8 - l) * (2 / 25))) * (23 / 25) ^ length ds
      = 8 - (8 - l) * (23 / 25) ^ length (d # ds)"
    by (simp add: field_simps)
  from Cons.IH [OF b m c l] show ?case
    unfolding ticks_Cons e1 e2 .
qed

text \<open>
  C10. With the pointer at \<open>(1, 1)\<close> in a reachable state whose camera x is \<open>x\<close> and
  whose light x is \<open>l\<close>, after the ticks \<open>ds\<close> the camera x is
  \<open>1/2 - (1/2 - x) (19/20)^n\<close> and the light x is \<open>8 - (8 - l) (23/25)^n\<close>, where
  \<open>n\<close> is the number of ticks. Starting at or below the target, each sequence is
  non-decreasing and never exceeds its target, 1/2 for the camera and 8 for the light;
  both converge to their targets.
\<close>

theorem pointer_damping:
  assumes "mouse (run evs (constructor e cv)) = (Some 1, Some 1)"
    and "camera_x (run evs (constructor e cv)) = Some x"
    and "light_x (run evs (constructor e cv)) = Some l"
  shows "camera_x (ticks ds (run evs (constructor e cv)))
           = Some (1 / 2 - (1 / 2 - x) * (19 / 20) ^ length ds)
       \<and> light_x (ticks ds (run evs (constructor e cv)))
           = Some (8 - (8 - l) * (23 / 25) ^ length ds)
       \<and> (x \<le> 1 / 2 \<longrightarrow>
            1 / 2 - (1 / 2 - x) * (19 / 20) ^ length ds
              \<le> 1 / 2 - (1 / 2 - x) * (19 / 20) ^ Suc (length ds)
            \<and> 1 / 2 - (1 / 2 - x) * (19 / 20) ^ Suc (length ds) \<le> 1 / 2)
       \<and> (l \<le> 8 \<longrightarrow>
            8 - (8 - l) * (23 / 25) ^ length ds \<le> 8 - (8 - l) * (23 / 25) ^ Suc (length ds)
            \<and> 8 - (8 - l) * (23 / 25) ^ Suc (length ds) \<le> 8)
       \<and> (\<lambda>n. 1 / 2 - (1 / 2 - x) * (19 / 20) ^ n) \<longlonglongrightarrow> 1 / 2
       \<and> (\<lambda>n. 8 - (8 - l) * (23 / 25) ^ n) \<longlonglongrightarrow> 8"
proof -
  have b: "booted (run evs (constructor e cv))" by (rule booted_reachable)
  have p1: "(0::real) \<le> (19 / 20) ^ n" "(0::real) \<le> (23 / 25) ^ n" for n
    by simp_all
  have m1: "(1 / 2 - x) * (19 / 20) ^ Suc n \<le> (1 / 2 - x) * (19 / 20) ^ n" if "x \<le> 1 / 2" for n
    using that p1(1) [of n] by (intro mult_left_mono) simp_all
  have m2: "(8 - l) * (23 / 25) ^ Suc n \<le> (8 - l) * (23 / 25) ^ n" if "l \<le> 8" for n
    using that p1(2) [of n] by (intro mult_left_mono) simp_all
  have n1: "0 \<le> (1 / 2 - x) * (19 / 20) ^ n" if "x \<le> 1 / 2" for n
    using that p1(1) [of n] by (intro mult_nonneg_nonneg) simp_all
  have n2: "0 \<le> (8 - l) * (23 / 25) ^ n" if "l \<le> 8" for n
    using that p1(2) [of n] by (intro mult_nonneg_nonneg) simp_all
  have l1: "(\<lambda>n. 1 / 2 - (1 / 2 - x) * (19 / 20) ^ n) \<longlonglongrightarrow> 1 / 2 - (1 / 2 - x) * 0"
    by (intro tendsto_intros LIMSEQ_realpow_zero) simp_all
  have l2: "(\<lambda>n. 8 - (8 - l) * (23 / 25) ^ n) \<longlonglongrightarrow> 8 - (8 - l) * 0"
    by (intro tendsto_intros LIMSEQ_realpow_zero) simp_all
  from ticks_closed_form [OF b assms, of ds] m1 [of "length ds"] m2 [of "length ds"]
    n1 [of "Suc (length ds)"] n2 [of "Suc (length ds)"] l1 l2
  show ?thesis by simp
qed

lemma constructor_eq_explicit:
  "constructor e cv =
     (booted_state e cv)
     \<lparr>rafQueue := [1], rafNext := 2, animFrameId := Some 1,
      camera := Some \<lparr> cam_position = (Some 0, Some 0, Some (21 / 4)),
                          aspect = jsdiv (innerWidth e) (innerHeight e) \<rparr>,
      mouseLight := Some (Some 0, Some 0, Some (2 / 5)),
      heap := (scene_meshes e @ [particle_object e])[11 := rotate_by 0 0 (particle_object e)]\<rparr>"
proof -
  have "constructor e cv = fst (tick 0 (booted_state e cv))" by (rule constructor_eq)
  also have "\<dots> = (booted_state e cv)
     \<lparr>rafQueue := [1], rafNext := 2, animFrameId := Some 1,
      camera := Some \<lparr> cam_position = (Some 0, Some 0, Some (21 / 4)),
                          aspect = jsdiv (innerWidth e) (innerHeight e) \<rparr>,
      mouseLight := Some (Some 0, Some 0, Some (2 / 5)),
      heap := (scene_meshes e @ [particle_object e])[11 := rotate_by 0 0 (particle_object e)]\<rparr>"
    unfolding tick_booted [OF booted_booted_state]
    by (simp add: booted_state_eq new_instance_def sway_def follow_def lift2_def
        length_scene_meshes nth_append)
  finally show ?thesis .
qed

lemma example_mouse:
  "mouse (run [MouseMove 800 0] (constructor example_env 0)) = (Some 1, Some 1)"
  by (simp add: run_def dispatch_def constructor_eq_explicit booted_state_eq new_instance_def
      mousemove_listener_def jsdiv_def example_env_def)

lemma example_camera_x:
  "camera_x (run [MouseMove 800 0] (constructor example_env 0)) = Some 0"
  by (simp add: run_def dispatch_def constructor_eq_explicit booted_state_eq new_instance_def
      mousemove_listener_def camera_x_def)

lemma example_light_x:
  "light_x (run [MouseMove 800 0] (constructor example_env 0)) = Some 0"
  by (simp add: run_def dispatch_def constructor_eq_explicit booted_state_eq new_instance_def
      mousemove_listener_def light_x_def)

theorem pointer_damping_witness:
  "camera_x (ticks [1 / 60, 1 / 60] (run [MouseMove 800 0] (constructor example_env 0)))
     = Some (39 / 800)
   \<and> light_x (ticks [1 / 60, 1 / 60] (run [MouseMove 800 0] (constructor example_env 0)))
     = Some (768 / 625)
   \<and> (1 / 2 - (1 / 2 - 0) * (19 / 20) ^ 2 :: real) \<le> 1 / 2 - (1 / 2 - 0) * (19 / 20) ^ 3
   \<and> (8 - (8 - 0) * (23 / 25) ^ 2 :: real) \<le> 8 - (8 - 0) * (23 / 25) ^ 3"
  using pointer_damping [OF example_mouse example_camera_x example_light_x, of "[1 / 60, 1 / 60]"]
  by (simp add: power2_eq_square power3_eq_cube)

section \<open>The camera travel and the contact sphere\<close>

lemma run_append: "run (xs @ ys) s = run ys (run xs s)"
  by (simp add: run_def)

lemma run_Cons: "run (x # xs) s = run xs (dispatch x s)"
  by (simp add: run_def)

lemma run_Nil: "run [] s = s"
  by (simp add: run_def)

lemma timeout_constructor:
  "run [Timeout] (constructor e cv) =
     (constructor e cv)\<lparr>timeoutPending := False,
       scrollTriggers := [CameraTrigger, ShowcaseTrigger, ContactTrigger],
       contactSphereScale := 1\<rparr>"
proof -
  have b: "booted (constructor e cv)" by (rule booted_constructor)
  have p: "timeoutPending (constructor e cv)" "scrollTriggers (constructor e cv) = []"
    by (simp_all add: constructor_eq_explicit booted_state_eq new_instance_def)
  have "initScrollAnimations ((constructor e cv)\<lparr>timeoutPending := False\<rparr>) =
     (constructor e cv)\<lparr>timeoutPending := False,
       scrollTriggers := scrollTriggers (constructor e cv) @ [CameraTrigger, ShowcaseTrigger, ContactTrigger],
       contactSphereScale := 1\<rparr>"
    using b by (subst initScrollAnimations_unset) (simp_all add: booted_def)
  with p show ?thesis by (simp add: run_def dispatch_def)
qed

text \<open>
  C4, as amended. In every reachable state, the full-document trigger delivering \<open>p\<close>
  sets the camera's y to \<open>p\<close> times minus the total section span, which is 40, the
  groups sitting at 0, -10, -20, -30 and -40; at \<open>p = 1\<close> the camera's y is -40. That
  callback leaves the contact-sphere scale target as it is: the target is set by the
  contact trigger, from that trigger's own progress \<open>q\<close>, to \<open>1 + 1.5 q\<close>, which is 2.5
  at \<open>q = 1\<close>. Both triggers are registered when the constructor's timer fires.
\<close>

theorem camera_travel:
  "let s = run evs (constructor e cv) in
     camera_y (camera_onUpdate p s) = Some (p * - totalSectionSpan s)
     \<and> section_offsets s = [0, - 10, - 20, - 30, - 40]
     \<and> totalSectionSpan s = 40
     \<and> camera_y (camera_onUpdate 1 s) = Some (- 40)
     \<and> contactSphereScale (camera_onUpdate p s) = contactSphereScale s
     \<and> contactSphereScale (contact_onUpdate q s) = 1 + q * (3 / 2)
     \<and> contactSphereScale (contact_onUpdate 1 s) = 5 / 2
     \<and> scrollTriggers (run [Timeout] (constructor e cv))
         = [CameraTrigger, ShowcaseTrigger, ContactTrigger]"
proof -
  have b: "booted (run evs (constructor e cv))" by (rule booted_reachable)
  then obtain c where c: "camera (run evs (constructor e cv)) = Some c"
    by (cases "camera (run evs (constructor e cv))") (simp_all add: booted_def)
  from b have o: "section_offsets (run evs (constructor e cv)) = [0, - 10, - 20, - 30, - 40]"
    by (simp add: booted_def)
  then have t: "totalSectionSpan (run evs (constructor e cv)) = 40"
    by (simp add: section_offsets_def totalSectionSpan_def)
  show ?thesis
    using c o t
    by (simp add: Let_def camera_y_def camera_onUpdate_def contact_onUpdate_def
        timeout_constructor)
qed

text \<open>
  C4 as stated fails: when the timer has fired and the full-document trigger delivers
  progress 1, the camera's y is -40 and the contact-sphere scale target is still 1,
  not 2.5.
\<close>

theorem contact_scale_counterexample:
  "camera_y (run [Timeout, TriggerUpdate CameraTrigger 1] (constructor example_env 0)) = Some (- 40)
   \<and> contactSphereScale (run [Timeout, TriggerUpdate CameraTrigger 1] (constructor example_env 0))
       \<noteq> 5 / 2"
proof -
  note t = timeout_constructor [of example_env 0, unfolded run_Cons run_Nil]
  have "run [Timeout, TriggerUpdate CameraTrigger 1] (constructor example_env 0)
      = dispatch (TriggerUpdate CameraTrigger 1) (dispatch Timeout (constructor example_env 0))"
    by (simp add: run_Cons run_Nil)
  also have "\<dots> = camera_onUpdate 1
      ((constructor example_env 0)\<lparr>timeoutPending := False,
         scrollTriggers := [CameraTrigger, ShowcaseTrigger, ContactTrigger],
         contactSphereScale := 1\<rparr>)"
    unfolding t by (simp add: dispatch_def trigger_update_def)
  finally show ?thesis
    by (simp add: camera_onUpdate_def camera_y_def Let_def constructor_eq_explicit)
qed

section \<open>Rendering without the post-processing modules\<close>

lemma imports_missing:
  "run [ImportsSettled missing_bloom] (constructor e cv) =
     (constructor e cv)\<lparr>importsPending := False,
        console := [''Post processing modules not available'']\<rparr>"
  by (simp add: run_def dispatch_def initPostProcessing_def missing_bloom_def
      constructor_eq_explicit booted_state_eq new_instance_def)

lemma frames_keep_console:
  assumes "booted s"
  shows "console (run (map Frame ds) s) = console s
       \<and> composer (run (map Frame ds) s) = composer s"
  using assms
proof (induction ds arbitrary: s)
  case Nil
  show ?case by (simp add: run_def)
next
  case (Cons d ds)
  show ?case
  proof (cases "rafQueue s")
    case Nil
    with Cons show ?thesis by (simp add: run_Cons dispatch_def)
  next
    case (Cons n rest)
    from Cons.prems have b: "booted (s\<lparr>rafQueue := rest\<rparr>)"
      by (simp add: booted_def mesh_addrs_def section_offsets_def)
    have d: "dispatch (Frame d) s = fst (tick d (s\<lparr>rafQueue := rest\<rparr>))"
      using Cons by (simp add: dispatch_def)
    have "booted (dispatch (Frame d) s)" using Cons.prems by (rule booted_dispatch)
    from Cons.IH [OF this] show ?thesis
      by (simp add: run_Cons) (simp add: d tick_booted [OF b])
  qed
qed

text \<open>
  C5. With the bloom module missing, the engine logs the warning and has no composer;
  however many animation frames follow, no frame is submitted for rendering, since
  \<^verbatim>\<open>_tick\<close> renders only through the composer.
\<close>

theorem missing_module_never_renders:
  "let s = run (ImportsSettled missing_bloom # map Frame ds) (constructor e cv) in
     console s = [''Post processing modules not available'']
     \<and> composer s = None
     \<and> frames s = 0"
proof -
  let ?s1 = "run [ImportsSettled missing_bloom] (constructor e cv)"
  have b: "booted ?s1" by (rule booted_reachable)
  have r: "run (ImportsSettled missing_bloom # map Frame ds) (constructor e cv)
      = run (map Frame ds) ?s1"
    by (simp add: run_Cons run_Nil)
  have f: "frames (run (ImportsSettled missing_bloom # map Frame ds) (constructor e cv)) = 0"
    using booted_reachable [of "ImportsSettled missing_bloom # map Frame ds" e cv]
    by (simp add: booted_def)
  have "composer ?s1 = None" "console ?s1 = [''Post processing modules not available'']"
    unfolding imports_missing
    by (simp_all add: constructor_eq_explicit booted_state_eq new_instance_def)
  with frames_keep_console [OF b, of ds] f show ?thesis
    by (simp add: Let_def r)
qed

text \<open>
  No state of the engine has submitted a frame. Without a composer the tick skips the
  render call; with the composer, the tick throws before it, because the offset
  uniform of the chromatic-aberration pass holds the number 0.003, which has no
  \<^verbatim>\<open>set\<close> method.
\<close>

lemma never_renders: "frames (run evs (constructor e cv)) = 0"
  using booted_reachable [of evs e cv] by (simp add: booted_def)

lemma tick_throws_with_composer:
  "snd (tick d (run [ImportsSettled all_loaded] (constructor e cv))) = Some TypeError"
proof -
  let ?s = "run [ImportsSettled all_loaded] (constructor e cv)"
  have s: "?s = (constructor e cv)\<lparr>importsPending := False,
      composer := Some \<lparr> passes = [RenderPass, UnrealBloomPass (4 / 5) (2 / 5) (1 / 5), ShaderPass],
                            composerSize = None, targetsDisposed = False \<rparr>,
      chromaticAberrationPass := Some [tDiffuse \<mapsto> UNull, uOffset \<mapsto> UFloat (3 / 1000)]\<rparr>"
    by (simp add: run_def dispatch_def initPostProcessing_def all_loaded_def
        constructor_eq_explicit booted_state_eq new_instance_def)
  have b: "booted ?s" by (rule booted_reachable)
  have c: "chromaticAberrationPass ?s \<noteq> None" by (subst s) simp
  have "tick d ?s = (tick_update d ?s,
      if chromaticAberrationPass ?s = None then None else Some TypeError)"
  proof (rule tick_no_render)
    show "(chromaticAberrationPass ?s = None \<and> composer ?s = None)
           \<or> offset_is_number (chromaticAberrationPass ?s)"
      using b by (simp add: booted_def)
    have u: "tick_update d ?s = fst (tick d ?s)"
      using b tick_booted [OF b, of d]
      by (subst tick_update_unset [where a = 11]) (simp_all add: booted_def)
    show "chromaticAberrationPass (tick_update d ?s) = chromaticAberrationPass ?s"
      unfolding u tick_booted [OF b] by simp
    show "composer (tick_update d ?s) = composer ?s"
      unfolding u tick_booted [OF b] by simp
  qed
  with c show ?thesis by simp
qed

section \<open>Scrubbed targets\<close>

lemma scrub_explicit:
  "run (scrub p) s =
     s\<lparr>waveAmplitude :=
         (if ShowcaseTrigger \<in> set (scrollTriggers s)
          then (if p < 1 / 2 then interpolate 0 (1 / 2) (p * 2)
                else interpolate (1 / 2) 0 ((p - 1 / 2) * 2))
          else waveAmplitude s),
       contactSphereScale :=
         (if ContactTrigger \<in> set (scrollTriggers s) then 1 + p * (3 / 2)
          else contactSphereScale s)\<rparr>"
proof -
  have 1: "dispatch (TriggerUpdate ShowcaseTrigger p) s =
     s\<lparr>waveAmplitude :=
         (if ShowcaseTrigger \<in> set (scrollTriggers s)
          then (if p < 1 / 2 then interpolate 0 (1 / 2) (p * 2)
                else interpolate (1 / 2) 0 ((p - 1 / 2) * 2))
          else waveAmplitude s)\<rparr>" for s
    by (simp add: dispatch_def trigger_update_def showcase_onUpdate_def)
  have 2: "dispatch (TriggerUpdate StatsTimeline p) s = s" for s
    by (simp add: dispatch_def trigger_update_def)
  have 3: "dispatch (TriggerUpdate ContactTrigger p) s =
     s\<lparr>contactSphereScale :=
         (if ContactTrigger \<in> set (scrollTriggers s) then 1 + p * (3 / 2)
          else contactSphereScale s)\<rparr>" for s
    by (simp add: dispatch_def trigger_update_def contact_onUpdate_def)
  show ?thesis
    unfolding scrub_def run_Cons run_Nil 1 2 3 by simp
qed

lemma scrub_overwrite: "run (scrub q) (run (scrub p) s) = run (scrub q) s"
  unfolding scrub_explicit by simp

lemma scrub_last: "run (scrub p) (run (concat (map scrub ps)) s) = run (scrub p) s"
proof (induction ps rule: rev_induct)
  case Nil
  show ?case by (simp add: run_def)
next
  case (snoc q qs)
  have "run (scrub p) (run (concat (map scrub (qs @ [q]))) s)
      = run (scrub p) (run (scrub q) (run (concat (map scrub qs)) s))"
    by (simp add: run_append)
  also have "\<dots> = run (scrub p) (run (concat (map scrub qs)) s)"
    by (rule scrub_overwrite)
  finally show ?case using snoc by simp
qed

text \<open>
  C7. In every reachable state, delivering the progress values 0, 0.5 and 0.2 in turn
  to the scrubbed triggers leaves the same wave amplitude, bar heights and contact
  sphere scale as delivering 0.2 alone; in general the targets after any sequence of
  progress values are those of its last value. Once the triggers are registered the
  wave amplitude is \<open>p\<close> below one half and \<open>1 - p\<close> from there on, and the scale is
  \<open>1 + 1.5 p\<close>. The bar heights are 0 throughout: \<^verbatim>\<open>statsBars\<close> is never assigned, so
  their timeline is never created.
\<close>

theorem scrubbed_targets_history_free:
  "let s = run evs (constructor e cv) in
     targets (run (scrub 0 @ scrub (1 / 2) @ scrub (1 / 5)) s) = targets (run (scrub (1 / 5)) s)
     \<and> targets (run (concat (map scrub (ps @ [p]))) s) = targets (run (scrub p) s)
     \<and> barHeights (run (concat (map scrub ps)) s) = [0, 0, 0, 0]
     \<and> targets (run (scrub p) (run [Timeout] (constructor e cv)))
         = (if p < 1 / 2 then p else 1 - p, [0, 0, 0, 0], 1 + p * (3 / 2))"
proof -
  have "run (scrub 0 @ scrub (1 / 2) @ scrub (1 / 5)) s = run (scrub (1 / 5)) s" for s
    by (simp add: run_append scrub_overwrite)
  moreover have "run (concat (map scrub (ps @ [p]))) s = run (scrub p) s" for s
    by (simp add: run_append scrub_last)
  moreover have "barHeights (run (concat (map scrub ps)) (run evs (constructor e cv))) = [0, 0, 0, 0]"
    using booted_reachable [of "evs @ concat (map scrub ps)" e cv]
    by (simp add: run_append booted_def)
  moreover have "targets (run (scrub p) (run [Timeout] (constructor e cv)))
         = (if p < 1 / 2 then p else 1 - p, [0, 0, 0, 0], 1 + p * (3 / 2))"
    unfolding scrub_explicit timeout_constructor
    by (simp add: targets_def interpolate_def constructor_eq_explicit booted_state_eq
        new_instance_def field_simps)
  ultimately show ?thesis by (simp add: Let_def)
qed

lemma destroy_constructor:
  "destroy (constructor e cv) =
      (constructor e cv)\<lparr>rafQueue := [], animFrameId := None, bindCount := 1,
         renderer := Some \<lparr> pixelRatio = min (devicePixelRatio e) 2,
                               size = (innerWidth e, innerHeight e),
                               rendererDisposed = True, domAttached = False \<rparr>,
         heap := map (\<lambda>ob. ob\<lparr>disposed := True\<rparr>) (heap (constructor e cv))\<rparr>"
  by (simp add: destroy_def cancelAnimationFrame_def removeEventListener_def Let_def
      constructor_eq_explicit booted_state_eq new_instance_def)

section \<open>After teardown\<close>

text \<open>
  C6. After \<^verbatim>\<open>destroy()\<close>, whatever happened before, the three window listeners are
  still registered, and a mousemove, scroll or resize event still runs its listener. In
  the 800 by 600 engine a mousemove after \<^verbatim>\<open>destroy()\<close> moves the pointer from
  \<open>(0, 0)\<close> to \<open>(1, 1)\<close>. When \<^verbatim>\<open>destroy()\<close> comes before the constructor's timer
  fires, the timer still registers the three scroll triggers afterwards.
\<close>

theorem destroy_keeps_listeners:
  "let s = run (evs @ [Destroy]) (constructor e cv) in
     windowListeners s
       = [(''resize'', ResizeArrow), (''mousemove'', MouseMoveArrow), (''scroll'', ScrollArrow)]
     \<and> dispatch (MouseMove cx cy) s = mousemove_listener cx cy s
     \<and> dispatch (Scroll y sh ih) s = scroll_listener y sh ih s
     \<and> dispatch (Resize w h dpr) s = resize_listener w h dpr s
     \<and> mouse (run [Destroy] (constructor example_env 0)) = (Some 0, Some 0)
     \<and> mouse (run [Destroy, MouseMove 800 0] (constructor example_env 0)) = (Some 1, Some 1)
     \<and> scrollTriggers (run [Destroy, Timeout] (constructor e cv))
         = [CameraTrigger, ShowcaseTrigger, ContactTrigger]"
proof -
  let ?s = "run (evs @ [Destroy]) (constructor e cv)"
  have b: "booted ?s" by (rule booted_reachable)
  then have w: "windowListeners ?s
       = [(''resize'', ResizeArrow), (''mousemove'', MouseMoveArrow), (''scroll'', ScrollArrow)]"
    by (simp add: booted_def)
  then have m: "dispatch (MouseMove cx cy) ?s = mousemove_listener cx cy ?s"
    "dispatch (Scroll y sh ih) ?s = scroll_listener y sh ih ?s"
    "dispatch (Resize w h dpr) ?s = resize_listener w h dpr ?s"
    by (simp_all add: dispatch_def)
  note d = destroy_constructor
  have e1: "mouse (run [Destroy] (constructor example_env 0)) = (Some 0, Some 0)"
    unfolding run_Cons run_Nil dispatch_def event.case d
    by (simp add: constructor_eq_explicit booted_state_eq new_instance_def)
  have bd: "booted (destroy (constructor e cv))" for e cv
    by (simp add: booted_destroy booted_constructor)
  have e2: "mouse (run [Destroy, MouseMove 800 0] (constructor example_env 0)) = (Some 1, Some 1)"
  proof -
    have "windowListeners (destroy (constructor example_env 0))
       = [(''resize'', ResizeArrow), (''mousemove'', MouseMoveArrow), (''scroll'', ScrollArrow)]"
      using bd [of example_env 0] by (simp add: booted_def)
    then have "run [Destroy, MouseMove 800 0] (constructor example_env 0)
        = mousemove_listener 800 0 (destroy (constructor example_env 0))"
      by (simp add: run_Cons run_Nil dispatch_def)
    then show ?thesis
      unfolding d
      by (simp add: mousemove_listener_def jsdiv_def constructor_eq_explicit booted_state_eq
          new_instance_def example_env_def)
  qed
  have e3: "scrollTriggers (run [Destroy, Timeout] (constructor e cv))
         = [CameraTrigger, ShowcaseTrigger, ContactTrigger]"
  proof -
    have p: "timeoutPending (destroy (constructor e cv))" "scrollTriggers (destroy (constructor e cv)) = []"
      unfolding d
      by (simp_all add: constructor_eq_explicit booted_state_eq new_instance_def)
    have "initScrollAnimations ((destroy (constructor e cv))\<lparr>timeoutPending := False\<rparr>) =
       (destroy (constructor e cv))\<lparr>timeoutPending := False,
         scrollTriggers := scrollTriggers (destroy (constructor e cv))
            @ [CameraTrigger, ShowcaseTrigger, ContactTrigger],
         contactSphereScale := 1\<rparr>"
      using bd [of e cv] by (subst initScrollAnimations_unset) (simp_all add: booted_def)
    with p show ?thesis by (simp add: run_Cons run_Nil dispatch_def)
  qed
  from w m e1 e2 e3 show ?thesis by (simp add: Let_def)
qed

lemma tidy_constructor: "tidy (constructor e cv)"
  by (simp add: tidy_def opt_list_def constructor_eq_explicit booted_state_eq new_instance_def)

lemma tidy_same:
  assumes "tidy s" "rafQueue s' = rafQueue s" "animFrameId s' = animFrameId s"
    "rafNext s' = rafNext s"
  shows "tidy s'"
  using assms by (auto simp add: tidy_def)

lemma tidy_dispatch:
  assumes "booted s" "tidy s" "external ev"
  shows "tidy (dispatch ev s)"
proof (cases ev)
  case (Frame d)
  show ?thesis
  proof (cases "rafQueue s")
    case Nil
    with Frame assms show ?thesis by (simp add: dispatch_def)
  next
    case (Cons n rest)
    with assms(2) have r: "rest = []"
      by (cases "animFrameId s") (simp_all add: tidy_def opt_list_def)
    from assms(1) have b: "booted (s\<lparr>rafQueue := []\<rparr>)"
      by (simp add: booted_def mesh_addrs_def section_offsets_def)
    from assms(2) have "0 < rafNext s" by (simp add: tidy_def)
    with Frame Cons r show ?thesis
      by (simp add: dispatch_def tick_booted [OF b] tidy_def opt_list_def)
  qed
next
  case (Scroll y sh ih)
  have "tidy (scroll_listener y sh ih s)"
    by (rule tidy_same [OF assms(2)]) (simp_all add: scroll_listener_def Let_def)
  with Scroll assms show ?thesis by (simp add: dispatch_def)
next
  case (MouseMove cx cy)
  have "tidy (mousemove_listener cx cy s)"
    by (rule tidy_same [OF assms(2)]) (simp_all add: mousemove_listener_def)
  with MouseMove assms show ?thesis by (simp add: dispatch_def)
next
  case (Resize w h dpr)
  have "tidy (resize_listener w h dpr s)"
    by (rule tidy_same [OF assms(2)]) (simp_all add: resize_listener_def Let_def)
  with Resize assms show ?thesis by (simp add: dispatch_def)
next
  case Timeout
  from assms(1) have "initScrollAnimations (s\<lparr>timeoutPending := False\<rparr>) =
     s\<lparr>timeoutPending := False,
       scrollTriggers := scrollTriggers s @ [CameraTrigger, ShowcaseTrigger, ContactTrigger],
       contactSphereScale := 1\<rparr>"
    by (subst initScrollAnimations_unset) (simp_all add: booted_def)
  then have "tidy (initScrollAnimations (s\<lparr>timeoutPending := False\<rparr>))"
    by (intro tidy_same [OF assms(2)]) simp_all
  with Timeout assms show ?thesis by (simp add: dispatch_def)
next
  case (ImportsSettled m)
  have "tidy (initPostProcessing m (s\<lparr>importsPending := False\<rparr>))"
    by (rule tidy_same [OF assms(2)]) (simp_all add: initPostProcessing_def)
  with ImportsSettled assms show ?thesis by (simp add: dispatch_def)
next
  case (TriggerUpdate t p)
  from assms(1) have "parallaxGroups s = None" by (simp add: booted_def)
  then have "tidy (trigger_update t p s)"
    by (cases t; intro tidy_same [OF assms(2)])
       (simp_all add: trigger_update_def camera_onUpdate_def showcase_onUpdate_def
         contact_onUpdate_def parallax_onUpdate_def Let_def)
  with TriggerUpdate assms show ?thesis by (simp add: dispatch_def)
next
  case (TriggerEnter t)
  from assms(1) have "featuresMeshes s = None" by (simp add: booted_def)
  with TriggerEnter assms show ?thesis
    by (cases t) (simp_all add: dispatch_def feature_onEnter_def)
next
  case (TweenWrite t v)
  from assms(1) have "tweens s = []" by (simp add: booted_def)
  with TweenWrite assms show ?thesis by (simp add: dispatch_def)
next
  case Destroy
  show ?thesis
  proof (cases "animFrameId s")
    case None
    with assms(2) have "rafQueue s = []" by (simp add: tidy_def opt_list_def)
    with Destroy None assms(2) show ?thesis
      by (simp add: dispatch_def destroy_def removeEventListener_def tidy_def opt_list_def Let_def
          split: option.splits)
  next
    case (Some n)
    with assms(2) have "0 < n" "rafQueue s = [n]" "0 < rafNext s"
      by (auto simp add: tidy_def opt_list_def)
    with Destroy Some show ?thesis
      by (simp add: dispatch_def destroy_def cancelAnimationFrame_def removeEventListener_def
          tidy_def opt_list_def Let_def split: option.splits)
  qed
next
  case (DirectTick d)
  with assms(3) show ?thesis by (simp add: external_def)
qed

lemma tidy_run:
  assumes "booted s" "tidy s" "list_all external evs"
  shows "tidy (run evs s)"
  using assms unfolding run_def
  by (induction evs arbitrary: s) (simp_all add: tidy_dispatch booted_dispatch)

lemma destroy_unschedules:
  assumes "booted s" "tidy s"
  shows "rafQueue (destroy s) = [] \<and> animFrameId (destroy s) = None"
proof (cases "animFrameId s")
  case None
  with assms(2) show ?thesis
    by (simp add: destroy_def removeEventListener_def tidy_def opt_list_def Let_def
        split: option.splits)
next
  case (Some n)
  with assms(2) have "0 < n" "rafQueue s = [n]"
    by (auto simp add: tidy_def opt_list_def)
  with Some show ?thesis
    by (simp add: destroy_def cancelAnimationFrame_def removeEventListener_def Let_def
        split: option.splits)
qed

text \<open>
  The scheduling part of teardown holds: when no tick was called directly,
  \<^verbatim>\<open>destroy()\<close> cancels the one pending animation-frame request, and the browser's
  next frame runs nothing.
\<close>

lemma no_frame_after_destroy:
  assumes "list_all external evs"
  shows "dispatch (Frame d) (run (evs @ [Destroy]) (constructor e cv))
       = run (evs @ [Destroy]) (constructor e cv)"
proof -
  have "booted (run evs (constructor e cv))" by (rule booted_reachable)
  moreover have "tidy (run evs (constructor e cv))"
    using assms by (intro tidy_run booted_constructor tidy_constructor)
  ultimately have "rafQueue (destroy (run evs (constructor e cv))) = []"
    using destroy_unschedules by blast
  then show ?thesis
    by (simp add: run_append run_Cons run_Nil dispatch_def)
qed

section \<open>Single-precision stores\<close>















section \<open>The particle buffers\<close>











subsection \<open>A particle stored outside the disk\<close>
















section \<open>The field computed by the particle shader\<close>

lemma curlNoise_X:
  "X3 (curlNoise p)
     = (snoise3 (zip3 (+) p (0, eps, 0)) - snoise3 (zip3 (-) p (0, eps, 0))) / (2 * eps)"
  by (simp add: curlNoise_def X3_def)

lemma curlNoise_Y:
  "Y3 (curlNoise p)
     = (snoise3 (zip3 (+) p (0, 0, eps)) - snoise3 (zip3 (-) p (0, 0, eps))) / (2 * eps)"
  by (simp add: curlNoise_def Y3_def)

lemma curlNoise_Z:
  "Z3 (curlNoise p)
     = (snoise3 (zip3 (+) p (eps, 0, 0)) - snoise3 (zip3 (-) p (eps, 0, 0))) / (2 * eps)"
  by (simp add: curlNoise_def Z3_def)

lemmas noise_defs =
  snoise3_def X3_def Y3_def Z3_def X4_def Y4_def Z4_def W4_def map3_def map4_def zip3_def
  zip4_def dot3_def dot4_def glsl_floor_def glsl_step_def mod289_def permute4_def
  taylorInvSqrt4_def eps_def Let_def

text \<open>
  C9. The three components of \<open>curlNoise\<close> are the difference quotients of the noise
  along y, z and x: a rearranged gradient, not a curl. At the point
  \<open>(0.3, 0.2, 0.1)\<close> the central-difference estimate of its divergence with step 0.01
  exceeds 12.
\<close>

theorem curl_noise_divergence:
  "12 < divergence_estimate (1 / 100) (3 / 10, 1 / 5, 1 / 10)"
  unfolding divergence_estimate_def curlNoise_X curlNoise_Y curlNoise_Z
  by (simp add: noise_defs cong: let_weak_cong)

end
